theory Spec2Isabelle
  imports Main "HOL-Library.Word"
begin

text \<open>
  The weather component \<open>WeatherComponent.jsx\<close>: its fetcher, its two field normalizers,
  its two extraction functions and its view state, embedded as functions over JSON
  values, and the properties of them that the specification states.
\<close>

section \<open>JavaScript values as the component sees them\<close>

text \<open>
  A JavaScript string is a sequence of UTF-16 code units. The glyphs the component
  tests for and prints are all in the Basic Multilingual Plane, one code unit each.
\<close>

type_synonym code_unit = "16 word"
type_synonym jsstring = "code_unit list"

definition ascii :: "string \<Rightarrow> jsstring" where
  "ascii s = map (\<lambda>c. of_nat (of_char c)) s"

text \<open>
  The component never computes with a Number: it tests it for truthiness and prints it
  in a template literal. A Number is therefore kept as what those two operations see:
  zero (\<open>+0\<close> or \<open>-0\<close>, both falsy and both printed as \<open>0\<close>; \<open>NaN\<close> cannot come out of
  JSON), or a nonzero number together with its \<open>ToString\<close> text.
\<close>

datatype jsnum = Zero | Nonzero jsstring

datatype jsval =
    Undefined
  | Null
  | Bool bool
  | Num jsnum
  | Str jsstring
  | Arr "jsval list"
  | Obj "(jsstring \<times> jsval) list"

datatype error = TypeError

definition and_then :: "error + 'a \<Rightarrow> ('a \<Rightarrow> error + 'b) \<Rightarrow> error + 'b" where
  "and_then r f = (case r of Inl e \<Rightarrow> Inl e | Inr v \<Rightarrow> f v)"

fun truthy :: "jsval \<Rightarrow> bool" where
  "truthy Undefined = False"
| "truthy Null = False"
| "truthy (Bool b) = b"
| "truthy (Num Zero) = False"
| "truthy (Num (Nonzero t)) = True"
| "truthy (Str s) = (s \<noteq> [])"
| "truthy (Arr xs) = True"
| "truthy (Obj kvs) = True"

fun nullish :: "jsval \<Rightarrow> bool" where
  "nullish Undefined = True"
| "nullish Null = True"
| "nullish v = False"

text \<open>\<open>a || b\<close>\<close>

definition js_or :: "jsval \<Rightarrow> jsval \<Rightarrow> jsval" where
  "js_or a b = (if truthy a then a else b)"

text \<open>Decimal text of a non-negative integer, as \<open>ToString\<close> prints it below \<open>10^21\<close>.\<close>

fun digits :: "nat \<Rightarrow> jsstring" where
  "digits n = (if n < 10 then [of_nat (48 + n)] else digits (n div 10) @ [of_nat (48 + n mod 10)])"

declare digits.simps [simp del]

text \<open>
  The property names the component reads from payload objects. None of them is a
  property of \<open>Object.prototype\<close>, \<open>Array.prototype\<close>, \<open>String.prototype\<close>,
  \<open>Number.prototype\<close> or \<open>Boolean.prototype\<close>, so reading one from a value that has
  no own property of that name gives \<open>undefined\<close>.
\<close>

datatype property = reportDatetime | timeSeries | areas | weathers | temps | pops | timeDefines

fun prop_name :: "property \<Rightarrow> jsstring" where
  "prop_name reportDatetime = ascii ''reportDatetime''"
| "prop_name timeSeries = ascii ''timeSeries''"
| "prop_name areas = ascii ''areas''"
| "prop_name weathers = ascii ''weathers''"
| "prop_name temps = ascii ''temps''"
| "prop_name pops = ascii ''pops''"
| "prop_name timeDefines = ascii ''timeDefines''"

text \<open>\<open>v.name\<close>: reading a property of \<open>undefined\<close> or \<open>null\<close> throws a TypeError.\<close>

fun js_field :: "jsval \<Rightarrow> property \<Rightarrow> error + jsval" where
  "js_field Undefined p = Inl TypeError"
| "js_field Null p = Inl TypeError"
| "js_field (Obj kvs) p = (case map_of kvs (prop_name p) of None \<Rightarrow> Inr Undefined | Some v \<Rightarrow> Inr v)"
| "js_field v p = Inr Undefined"

text \<open>
  \<open>v[i]\<close> for a non-negative integer \<open>i\<close>: an array element, a one-code-unit string, the
  property of an object named by the decimal text of \<open>i\<close>, and \<open>undefined\<close> where there
  is none. Arrays out of JSON have no holes.
\<close>

fun js_index :: "jsval \<Rightarrow> nat \<Rightarrow> error + jsval" where
  "js_index Undefined i = Inl TypeError"
| "js_index Null i = Inl TypeError"
| "js_index (Arr xs) i = (if i < length xs then Inr (xs ! i) else Inr Undefined)"
| "js_index (Str s) i = (if i < length s then Inr (Str [s ! i]) else Inr Undefined)"
| "js_index (Obj kvs) i = (case map_of kvs (digits i) of None \<Rightarrow> Inr Undefined | Some v \<Rightarrow> Inr v)"
| "js_index v i = Inr Undefined"

text \<open>
  \<open>s.split(sep)\<close> for a one-code-unit separator. The result always has a first element.
\<close>

fun js_split :: "code_unit \<Rightarrow> jsstring \<Rightarrow> jsstring list" where
  "js_split sep [] = [[]]"
| "js_split sep (c # cs) =
     (if c = sep then [] # js_split sep cs
      else (let r = js_split sep cs in (c # hd r) # tl r))"

text \<open>
  \<open>v.split('T')\<close>: only a string has a callable \<open>split\<close>; on \<open>undefined\<close> and \<open>null\<close> the
  property read throws, and on every other value out of JSON \<open>split\<close> is \<open>undefined\<close> or
  a non-callable own property, so the call throws.
\<close>

definition js_split_T :: "jsval \<Rightarrow> error + jsval" where
  "js_split_T v = (case v of Str s \<Rightarrow> Inr (Arr (map Str (js_split 0x54 s))) | _ \<Rightarrow> Inl TypeError)"

text \<open>\<open>s.includes(t)\<close>: \<open>t\<close> occurs in \<open>s\<close> as a contiguous run of code units.\<close>

fun starts_with :: "jsstring \<Rightarrow> jsstring \<Rightarrow> bool" where
  "starts_with s [] = True"
| "starts_with [] (c # t) = False"
| "starts_with (d # s) (c # t) = (d = c \<and> starts_with s t)"

fun js_includes :: "jsstring \<Rightarrow> jsstring \<Rightarrow> bool" where
  "js_includes [] t = (t = [])"
| "js_includes (c # s) t = (starts_with (c # s) t \<or> js_includes s t)"

text \<open>
  \<open>ToString\<close>, as a template literal applies it. An array prints its elements joined
  by commas, \<open>undefined\<close> and \<open>null\<close> elements as the empty string. An object out of JSON
  prints as \<open>[object Object]\<close> unless it has an own property \<open>toString\<close>: that property is
  data, so it is not callable, \<open>valueOf\<close> (own or inherited) yields no primitive, and the
  conversion throws a TypeError.
\<close>

fun join :: "jsstring list \<Rightarrow> jsstring" where
  "join [] = []"
| "join [s] = s"
| "join (s # t # ss) = s @ 0x2C # join (t # ss)"

fun collect :: "(error + 'a) list \<Rightarrow> error + 'a list" where
  "collect [] = Inr []"
| "collect (r # rs) = and_then r (\<lambda>v. and_then (collect rs) (\<lambda>vs. Inr (v # vs)))"

fun ToString :: "jsval \<Rightarrow> error + jsstring" where
  "ToString Undefined = Inr (ascii ''undefined'')"
| "ToString Null = Inr (ascii ''null'')"
| "ToString (Bool b) = Inr (if b then ascii ''true'' else ascii ''false'')"
| "ToString (Num Zero) = Inr (ascii ''0'')"
| "ToString (Num (Nonzero t)) = Inr t"
| "ToString (Str s) = Inr s"
| "ToString (Arr xs) =
     and_then (collect (map (\<lambda>x. if nullish x then Inr [] else ToString x) xs)) (\<lambda>ss. Inr (join ss))"
| "ToString (Obj kvs) =
     (if map_of kvs (ascii ''toString'') = None then Inr (ascii ''[object Object]'') else Inl TypeError)"

section \<open>Field normalizers\<close>

text \<open>The placeholder \<open>U+4E0D U+660E\<close> ("unknown").\<close>

definition unknown :: jsstring where
  "unknown = [0x4E0D, 0x660E]"

text \<open>
  \<open>getWeatherText\<close>: the sun glyph \<open>U+6674\<close>, the rain glyph \<open>U+96E8\<close> and the cloud glyph
  \<open>U+66C7\<close>, tested in this order.
\<close>

definition sunny :: jsstring where "sunny = [0x6674, 0x308C]"
definition rainy :: jsstring where "rainy = [0x96E8]"
definition cloudy :: jsstring where "cloudy = [0x66C7, 0x308A]"

definition getWeatherText :: "jsval \<Rightarrow> jsstring" where
  "getWeatherText weatherText =
     (case weatherText of
        Str s \<Rightarrow>
          if \<not> truthy weatherText then unknown
          else if js_includes s [0x6674] then sunny
          else if js_includes s [0x96E8] then rainy
          else if js_includes s [0x66C7] then cloudy
          else s
      | _ \<Rightarrow> unknown)"

text \<open>
  \<open>formatDate\<close>. The \<open>Date\<close> object belongs to the JavaScript runtime, and what
  \<open>new Date(x).getDate()\<close> returns depends on the runtime's parser and time zone. It is
  a parameter \<open>D\<close> here: \<open>D x = Some d\<close> when \<open>getDate()\<close> returns the day of the month
  \<open>d\<close>, and \<open>D x = None\<close> when the date is invalid and \<open>getDate()\<close> returns \<open>NaN\<close>. The
  suffix is the day glyph \<open>U+65E5\<close>. The component applies \<open>formatDate\<close> to the first
  part of a split text or to \<open>undefined\<close>. For an array or an object the constructor
  first converts its argument to a primitive, which can raise a TypeError; \<open>D\<close> has no
  such outcome, so what is stated of \<open>formatDate\<close> alone is stated for arguments that
  are not objects.
\<close>

type_synonym getDate = "jsval \<Rightarrow> nat option"

definition day_suffix :: jsstring where
  "day_suffix = [0x65E5]"

definition formatDate :: "getDate \<Rightarrow> jsval \<Rightarrow> jsstring" where
  "formatDate D dateString =
     (if \<not> truthy dateString then unknown
      else (case D dateString of
              None \<Rightarrow> ascii ''NaN'' @ day_suffix
            | Some d \<Rightarrow> digits d @ day_suffix))"

section \<open>Member-access chains\<close>

text \<open>
  The extraction functions read the payload through chains of member accesses such as
  \<open>data[1]?.timeSeries[2]?.areas[0]?.temps[1]\<close>. A chain is a list of steps applied
  from left to right: \<open>[i]\<close>, \<open>.p\<close>, \<open>?.p\<close> and the call \<open>.split('T')\<close>. At \<open>?.p\<close>, when
  the value reached so far is \<open>undefined\<close> or \<open>null\<close>, the rest of the chain is not
  evaluated and the whole chain is \<open>undefined\<close>; at a plain step such a value throws.
\<close>

datatype step = Idx nat | Fld property | OptFld property | SplitT

fun access :: "jsval \<Rightarrow> step list \<Rightarrow> error + jsval" where
  "access v [] = Inr v"
| "access v (Idx i # ss) = and_then (js_index v i) (\<lambda>w. access w ss)"
| "access v (Fld p # ss) = and_then (js_field v p) (\<lambda>w. access w ss)"
| "access v (OptFld p # ss) =
     (if nullish v then Inr Undefined else and_then (js_field v p) (\<lambda>w. access w ss))"
| "access v (SplitT # ss) = and_then (js_split_T v) (\<lambda>w. access w ss)"

section \<open>Extraction logic\<close>

text \<open>The unit suffixes: the degree sign \<open>U+2103\<close> and the percent sign.\<close>

definition degC :: jsstring where "degC = [0x2103]"
definition percent :: jsstring where "percent = [0x25]"

record today_summary =
  date :: jsstring
  weather :: jsstring
  temperature :: jsstring
  precipitation :: jsstring

record day_summary =
  date :: jsstring
  weather :: jsstring
  maxTemp :: jsstring
  minTemp :: jsstring

text \<open>
  The payload \<open>data\<close> is \<open>null\<close> (\<open>None\<close>) or the provider's top-level JSON array
  (\<open>Some xs\<close>), the "ordered sequence of report objects" of the data model; its
  elements are arbitrary JSON values. A body whose top-level value is of another kind
  is outside this model.
\<close>

type_synonym payload = "jsval list option"

text \<open>
  \<open>c ? `${v}u` : unknown\<close>, where \<open>c\<close> is the value of the guarding chain and \<open>v\<close> the
  value read again inside the template literal.
\<close>

definition with_unit :: "error + jsval \<Rightarrow> error + jsval \<Rightarrow> jsstring \<Rightarrow> error + jsstring" where
  "with_unit c v u =
     and_then c (\<lambda>cv.
       if truthy cv then and_then v (\<lambda>x. and_then (ToString x) (\<lambda>s. Inr (s @ u)))
       else Inr unknown)"

text \<open>
  The four values of \<open>extractTodayWeather\<close>:
  \<^item> \<open>rawDate = data[0]?.reportDatetime.split('T')[0]\<close>;
  \<^item> \<open>weatherText = data[0]?.timeSeries[0]?.areas[0]?.weathers[0] || unknown\<close>;
  \<^item> the temperature, guarded by \<open>data[1]?.timeSeries[2]?.areas[0]?.temps[1]\<close> and
    printed from \<open>data[1].timeSeries[2].areas[0].temps[1]\<close>;
  \<^item> the precipitation, guarded by \<open>data[0]?.timeSeries[1]?.areas[0]?.pops[0]\<close> and
    printed from \<open>data[0].timeSeries[1]?.areas[0]?.pops[0]\<close>.
\<close>

definition rawDate :: "jsval list \<Rightarrow> error + jsval" where
  "rawDate data = access (Arr data) [Idx 0, OptFld reportDatetime, SplitT, Idx 0]"

definition weatherText :: "jsval list \<Rightarrow> error + jsval" where
  "weatherText data =
     and_then
       (access (Arr data) [Idx 0, OptFld timeSeries, Idx 0, OptFld areas, Idx 0, OptFld weathers, Idx 0])
       (\<lambda>w. Inr (js_or w (Str unknown)))"

definition temperature_text :: "jsval list \<Rightarrow> error + jsstring" where
  "temperature_text data =
     with_unit
       (access (Arr data) [Idx 1, OptFld timeSeries, Idx 2, OptFld areas, Idx 0, OptFld temps, Idx 1])
       (access (Arr data) [Idx 1, Fld timeSeries, Idx 2, Fld areas, Idx 0, Fld temps, Idx 1])
       degC"

definition precipitation_text :: "jsval list \<Rightarrow> error + jsstring" where
  "precipitation_text data =
     with_unit
       (access (Arr data) [Idx 0, OptFld timeSeries, Idx 1, OptFld areas, Idx 0, OptFld pops, Idx 0])
       (access (Arr data) [Idx 0, Fld timeSeries, Idx 1, OptFld areas, Idx 0, OptFld pops, Idx 0])
       percent"

text \<open>The body of the \<open>try\<close> block of \<open>extractTodayWeather\<close>.\<close>

definition today_try :: "getDate \<Rightarrow> jsval list \<Rightarrow> error + today_summary" where
  "today_try D data =
     and_then (rawDate data) (\<lambda>d.
     and_then (weatherText data) (\<lambda>w.
     and_then (temperature_text data) (\<lambda>t.
     and_then (precipitation_text data) (\<lambda>p.
     Inr \<lparr>today_summary.date = formatDate D d,
          weather = getWeatherText w,
          temperature = t,
          precipitation = p\<rparr>))))"

definition extractTodayWeather :: "getDate \<Rightarrow> payload \<Rightarrow> today_summary option" where
  "extractTodayWeather D data =
     (case data of
        None \<Rightarrow> None
      | Some xs \<Rightarrow>
          if length xs = 0 then None
          else (case today_try D xs of Inl e \<Rightarrow> None | Inr r \<Rightarrow> Some r))"

text \<open>
  \<open>days.slice(0, 3).map(f)\<close>: on an array, \<open>f\<close> is applied to the first three elements
  with their indices, and the first exception of a call ends the map. A string has
  \<open>slice\<close> but its result has no \<open>map\<close>; every other value has no callable \<open>slice\<close>.
\<close>

definition slice3_map :: "jsval \<Rightarrow> (jsval \<Rightarrow> nat \<Rightarrow> error + 'a) \<Rightarrow> error + 'a list" where
  "slice3_map v f =
     (case v of
        Arr xs \<Rightarrow> collect (map (\<lambda>(i, x). f x i) (enumerate 0 (take 3 xs)))
      | _ \<Rightarrow> Inl TypeError)"

text \<open>The callback of the map, for one timestamp \<open>date_v\<close> at position \<open>index\<close>.\<close>

definition day_of :: "getDate \<Rightarrow> jsval \<Rightarrow> jsval \<Rightarrow> jsval \<Rightarrow> jsval \<Rightarrow> nat \<Rightarrow> error + day_summary" where
  "day_of D weathers_v maxTemps minTemps date_v index =
     and_then (access date_v [SplitT, Idx 0]) (\<lambda>d.
     and_then (js_index weathers_v index) (\<lambda>w.
     and_then (with_unit (js_index maxTemps index) (js_index maxTemps index) degC) (\<lambda>hi.
     and_then (with_unit (js_index minTemps index) (js_index minTemps index) degC) (\<lambda>lo.
     Inr \<lparr>day_summary.date = formatDate D d,
          weather = (if truthy w then getWeatherText w else unknown),
          maxTemp = hi,
          minTemp = lo\<rparr>))))"

text \<open>
  The body of the \<open>try\<close> block of \<open>extractThreeDayWeather\<close>. The four lists are
  \<open>threeDayData.timeSeries[0]?.timeDefines\<close>,
  \<open>threeDayData.timeSeries[0]?.areas[0]?.weathers\<close>,
  \<open>threeDayData.timeSeries[1]?.areas[0]?.temps\<close> and
  \<open>threeDayData.timeSeries[2]?.areas[0]?.temps\<close>, each followed by \<open>|| []\<close>.
\<close>

definition threeDay_try :: "getDate \<Rightarrow> jsval list \<Rightarrow> error + day_summary list option" where
  "threeDay_try D data =
     and_then (js_index (Arr data) 0) (\<lambda>threeDayData.
     if \<not> truthy threeDayData then Inr None
     else and_then (js_field threeDayData timeSeries) (\<lambda>ts.
     if \<not> truthy ts then Inr None
     else
     and_then (access threeDayData [Fld timeSeries, Idx 0, OptFld timeDefines]) (\<lambda>d.
       let days = js_or d (Arr []) in
     and_then (access threeDayData [Fld timeSeries, Idx 0, OptFld areas, Idx 0, OptFld weathers]) (\<lambda>w.
       let weathers_v = js_or w (Arr []) in
     and_then (access threeDayData [Fld timeSeries, Idx 1, OptFld areas, Idx 0, OptFld temps]) (\<lambda>hi.
       let maxTemps = js_or hi (Arr []) in
     and_then (access threeDayData [Fld timeSeries, Idx 2, OptFld areas, Idx 0, OptFld temps]) (\<lambda>lo.
       let minTemps = js_or lo (Arr []) in
     and_then (slice3_map days (day_of D weathers_v maxTemps minTemps)) (\<lambda>rs. Inr (Some rs))))))))"

definition extractThreeDayWeather :: "getDate \<Rightarrow> payload \<Rightarrow> day_summary list option" where
  "extractThreeDayWeather D data =
     (case data of
        None \<Rightarrow> None
      | Some xs \<Rightarrow>
          if length xs < 1 then None
          else (case threeDay_try D xs of Inl e \<Rightarrow> None | Inr r \<Rightarrow> r))"

section \<open>Weather fetcher\<close>

datatype region = Hokkaido | Tokyo | Osaka | Fukuoka

fun AREA_CODES :: "region \<Rightarrow> jsstring" where
  "AREA_CODES Hokkaido = ascii ''016000''"
| "AREA_CODES Tokyo = ascii ''130000''"
| "AREA_CODES Osaka = ascii ''270000''"
| "AREA_CODES Fukuoka = ascii ''400000''"

definition generateApiEndpoint :: "jsstring \<Rightarrow> jsstring" where
  "generateApiEndpoint areaCode =
     ascii ''https://www.jma.go.jp/bosai/forecast/data/forecast/'' @ areaCode @ ascii ''.json''"

text \<open>
  The transport is the runtime's \<open>fetch\<close>: awaiting it either rejects or resolves to a
  response, which carries the flag \<open>ok\<close> and whose \<open>json()\<close>, awaited, either rejects or
  resolves to the parsed body.
\<close>

datatype 'a awaited = Rejected | Resolved 'a

record response =
  ok :: bool
  json :: "payload awaited"

type_synonym transport = "jsstring \<Rightarrow> response awaited"

datatype thrown = FetchRejected | RequestFailed | JsonRejected

text \<open>The body of the \<open>try\<close> block: a thrown value or the returned payload.\<close>

definition fetch_try :: "transport \<Rightarrow> jsstring \<Rightarrow> thrown + payload" where
  "fetch_try fetch areaCode =
     (let API_ENDPOINT = generateApiEndpoint areaCode in
      case fetch API_ENDPOINT of
        Rejected \<Rightarrow> Inl FetchRejected
      | Resolved response \<Rightarrow>
          if \<not> ok response then Inl RequestFailed
          else (case json response of
                  Rejected \<Rightarrow> Inl JsonRejected
                | Resolved body \<Rightarrow> Inr body))"

definition fetchWeatherData :: "transport \<Rightarrow> jsstring \<Rightarrow> payload" where
  "fetchWeatherData fetch areaCode =
     (case fetch_try fetch areaCode of Inl e \<Rightarrow> None | Inr body \<Rightarrow> body)"

section \<open>View state controller\<close>

datatype view_mode = Today | ThreeDay

record view_state =
  selectedArea :: region
  weatherData :: "today_summary option"
  threeDayWeather :: "day_summary list option"
  error :: "jsstring option"
  isLoading :: bool
  viewMode :: view_mode

definition initial_state :: view_state where
  "initial_state =
     \<lparr>selectedArea = Tokyo, weatherData = None, threeDayWeather = None,
      error = None, isLoading = True, viewMode = Today\<rparr>"

text \<open>The two messages: extraction failed on a payload, and no payload was retrieved.\<close>

definition parse_failed :: jsstring where
  "parse_failed =
     [0x30C7, 0x30FC, 0x30BF, 0x306E, 0x89E3, 0x6790, 0x306B, 0x5931, 0x6557,
      0x3057, 0x307E, 0x3057, 0x305F]"

definition fetch_failed :: jsstring where
  "fetch_failed =
     [0x5929, 0x6C17, 0x30C7, 0x30FC, 0x30BF, 0x3092, 0x53D6, 0x5F97, 0x3067, 0x304D,
      0x307E, 0x305B, 0x3093, 0x3067, 0x3057, 0x305F]"

text \<open>
  \<open>fetchData\<close>, the body of the effect: the part before the \<open>await\<close>, the part after it
  given the awaited payload, and the two run with nothing in between.
\<close>

definition fetchData_begin :: "view_state \<Rightarrow> view_state" where
  "fetchData_begin st = st\<lparr>isLoading := True, error := None\<rparr>"

definition fetchData_resume :: "getDate \<Rightarrow> view_state \<Rightarrow> payload \<Rightarrow> view_state" where
  "fetchData_resume D st data =
     (let st1 =
        (if data \<noteq> None then
           (let todayWeather = extractTodayWeather D data;
                threeDayWeatherData = extractThreeDayWeather D data;
                sa = (if todayWeather \<noteq> None then st\<lparr>weatherData := todayWeather\<rparr> else st);
                sb = (if threeDayWeatherData \<noteq> None then sa\<lparr>threeDayWeather := threeDayWeatherData\<rparr> else sa)
            in if todayWeather = None \<and> threeDayWeatherData = None
               then sb\<lparr>error := Some parse_failed\<rparr> else sb)
         else st\<lparr>error := Some fetch_failed\<rparr>)
      in st1\<lparr>isLoading := False\<rparr>)"

definition fetchData :: "getDate \<Rightarrow> transport \<Rightarrow> view_state \<Rightarrow> view_state" where
  "fetchData D fetch st =
     fetchData_resume D (fetchData_begin st) (fetchWeatherData fetch (AREA_CODES (selectedArea st)))"

text \<open>
  The click handlers set one state variable each. The effect has the dependency list
  \<open>[selectedArea]\<close>: after a state change it runs again exactly when \<open>selectedArea\<close>
  has changed.
\<close>

definition setSelectedArea :: "region \<Rightarrow> view_state \<Rightarrow> view_state" where
  "setSelectedArea area st = st\<lparr>selectedArea := area\<rparr>"

definition setViewMode :: "view_mode \<Rightarrow> view_state \<Rightarrow> view_state" where
  "setViewMode m st = st\<lparr>viewMode := m\<rparr>"

definition effect_runs :: "view_state \<Rightarrow> view_state \<Rightarrow> bool" where
  "effect_runs before after = (selectedArea after \<noteq> selectedArea before)"

section \<open>A reference runtime for the examples\<close>

text \<open>
  A getDate for running examples: a runtime in the UTC time zone on the two shapes of
  timestamp the component passes or is specified on, \<open>YYYY-MM-DD\<close> (read as UTC midnight)
  and \<open>YYYY-MM-DDThh:mm:ss\<close> (read as local time), for dates that exist in the
  calendar. Every other input is answered as an invalid date; the examples use it
  only on the two shapes and on text that is no date at all.
\<close>

definition is_digit :: "code_unit \<Rightarrow> bool" where
  "is_digit c = (0x30 \<le> c \<and> c \<le> 0x39)"

definition number :: "jsstring \<Rightarrow> nat option" where
  "number cs =
     (if cs \<noteq> [] \<and> list_all is_digit cs
      then Some (foldl (\<lambda>n c. 10 * n + (unat c - 48)) 0 cs) else None)"

definition days_in_month :: "nat \<Rightarrow> nat \<Rightarrow> nat" where
  "days_in_month y m =
     (if m = 2 then (if y mod 4 = 0 \<and> (y mod 100 \<noteq> 0 \<or> y mod 400 = 0) then 29 else 28)
      else if m = 4 \<or> m = 6 \<or> m = 9 \<or> m = 11 then 30 else 31)"

definition time_ok :: "jsstring \<Rightarrow> bool" where
  "time_ok t =
     (t = [] \<or>
      (length t = 9 \<and> t ! 0 = 0x54 \<and> t ! 3 = 0x3A \<and> t ! 6 = 0x3A \<and>
       (case (number (take 2 (drop 1 t)), number (take 2 (drop 4 t)), number (take 2 (drop 7 t))) of
          (Some h, Some m, Some s) \<Rightarrow> h < 24 \<and> m < 60 \<and> s < 60
        | _ \<Rightarrow> False)))"

definition utc_getDate :: getDate where
  "utc_getDate v =
     (case v of
        Str s \<Rightarrow>
          (if 10 \<le> length s \<and> s ! 4 = 0x2D \<and> s ! 7 = 0x2D \<and> time_ok (drop 10 s) then
             (case (number (take 4 s), number (take 2 (drop 5 s)), number (take 2 (drop 8 s))) of
                (Some y, Some m, Some d) \<Rightarrow>
                  if 1 \<le> m \<and> m \<le> 12 \<and> 1 \<le> d \<and> d \<le> days_in_month y m then Some d else None
              | _ \<Rightarrow> None)
           else None)
      | _ \<Rightarrow> None)"

section \<open>What a path of the payload holds\<close>

text \<open>
  The value a payload holds at a path, read leniently: a step that cannot be taken
  (nothing there, or a value of the wrong kind) gives \<open>undefined\<close>, and so does every
  step after it. This is the reading the specification has in mind when it says
  which entry, bucket, area and value a field comes from; the theorems below compare
  the extraction functions with it.
\<close>

fun value_at :: "jsval \<Rightarrow> step list \<Rightarrow> jsval" where
  "value_at v [] = v"
| "value_at v (s # ss) = (case access v [s] of Inl e \<Rightarrow> Undefined | Inr w \<Rightarrow> value_at w ss)"

fun plain :: "step \<Rightarrow> step" where
  "plain (OptFld p) = Fld p"
| "plain s = s"

definition text_of :: "jsval \<Rightarrow> jsstring" where
  "text_of v = (case ToString v of Inl e \<Rightarrow> [] | Inr s \<Rightarrow> s)"

text \<open>
  The day summary the specification describes for position \<open>i\<close>: date, weather,
  maximum and minimum temperature are the \<open>i\<close>-th entries of the four parallel lists of
  the first report entry, each normalized, with the placeholder where an entry is
  absent or falsy.
\<close>

definition day_at :: "getDate \<Rightarrow> jsval list \<Rightarrow> nat \<Rightarrow> day_summary" where
  "day_at D data i =
     \<lparr>day_summary.date =
        formatDate D (value_at (Arr data) [Idx 0, Fld timeSeries, Idx 0, Fld timeDefines, Idx i, SplitT, Idx 0]),
      weather =
        (let w = value_at (Arr data) [Idx 0, Fld timeSeries, Idx 0, Fld areas, Idx 0, Fld weathers, Idx i]
         in if truthy w then getWeatherText w else unknown),
      maxTemp =
        (let x = value_at (Arr data) [Idx 0, Fld timeSeries, Idx 1, Fld areas, Idx 0, Fld temps, Idx i]
         in if truthy x then text_of x @ degC else unknown),
      minTemp =
        (let x = value_at (Arr data) [Idx 0, Fld timeSeries, Idx 2, Fld areas, Idx 0, Fld temps, Idx i]
         in if truthy x then text_of x @ degC else unknown)\<rparr>"

text \<open>A raw value that is present but falsy: the empty text, a zero, or \<open>false\<close>.\<close>

definition falsy_present :: "jsval \<Rightarrow> bool" where
  "falsy_present v = (v = Str [] \<or> v = Num Zero \<or> v = Bool False)"

text \<open>A value that is not an object: neither an array nor a record of properties.\<close>

fun primitive :: "jsval \<Rightarrow> bool" where
  "primitive (Arr xs) = False"
| "primitive (Obj kvs) = False"
| "primitive v = True"

text \<open>
  The array element read by step \<open>n\<close> of a chain is absent: the step is an index step,
  the value it indexes is there, and what it finds is \<open>undefined\<close> or \<open>null\<close>.
\<close>

definition absent :: "jsval \<Rightarrow> step list \<Rightarrow> nat \<Rightarrow> bool" where
  "absent v ss n =
     (n < length ss \<and> (case ss ! n of Idx i \<Rightarrow> True | _ \<Rightarrow> False) \<and>
      \<not> nullish (value_at v (map plain (take n ss))) \<and>
      nullish (value_at v (map plain (take (Suc n) ss))))"

text \<open>
  A chain in which every index step that is not the last is followed by \<open>?.\<close>: the
  shape of the four chains that guard the fields of today's summary.
\<close>

fun guarded :: "step list \<Rightarrow> bool" where
  "guarded [] = True"
| "guarded [s] = True"
| "guarded (Idx i # s # ss) = ((case s of OptFld p \<Rightarrow> True | _ \<Rightarrow> False) \<and> guarded (s # ss))"
| "guarded (t # s # ss) = guarded (s # ss)"

section \<open>Example payloads\<close>

definition area_with :: "string \<Rightarrow> jsval list \<Rightarrow> jsval" where
  "area_with name vs = Obj [(ascii ''areas'', Arr [Obj [(ascii name, Arr vs)]])]"

text \<open>A first report entry with a timestamp, one weather text and one probability.\<close>

definition ex_entry0 :: jsval where
  "ex_entry0 =
     Obj [(ascii ''reportDatetime'', Str (ascii ''2024-05-03T05:00:00+09:00'')),
          (ascii ''timeSeries'',
             Arr [area_with ''weathers'' [Str [0x6674, 0x308C]],
                  area_with ''pops'' [Str (ascii ''10'')]])]"

text \<open>A second report entry whose third bucket carries two temperatures.\<close>

definition ex_entry1 :: jsval where
  "ex_entry1 =
     Obj [(ascii ''timeSeries'',
             Arr [Null, Null, area_with ''temps'' [Str (ascii ''12''), Str (ascii ''21'')]])]"

text \<open>The same entry without its \<open>reportDatetime\<close>.\<close>

definition ex_no_timestamp :: jsval where
  "ex_no_timestamp =
     Obj [(ascii ''timeSeries'',
             Arr [area_with ''weathers'' [Str [0x6674, 0x308C]],
                  area_with ''pops'' [Str (ascii ''10'')]])]"

text \<open>
  A first report entry whose weather list is empty and which has no second bucket.
\<close>

definition ex_sparse :: jsval where
  "ex_sparse =
     Obj [(ascii ''reportDatetime'', Str (ascii ''2024-05-03T05:00:00+09:00'')),
          (ascii ''timeSeries'', Arr [area_with ''weathers'' []])]"

text \<open>A timestamp of the provider for midnight of the given day.\<close>

definition stamp :: "string \<Rightarrow> jsval" where
  "stamp day = Str (ascii day @ ascii ''T00:00:00+09:00'')"

text \<open>Seven timestamps against two weather texts, and no temperatures.\<close>

definition ex_week :: jsval where
  "ex_week =
     Obj [(ascii ''timeSeries'',
        Arr [Obj [(ascii ''timeDefines'',
                     Arr [stamp ''2024-05-03'', stamp ''2024-05-04'', stamp ''2024-05-05'',
                          stamp ''2024-05-06'', stamp ''2024-05-07'', stamp ''2024-05-08'',
                          stamp ''2024-05-09'']),
                  (ascii ''areas'',
                     Arr [Obj [(ascii ''weathers'', Arr [Str [0x6674, 0x308C], Str [0x96E8]])]])]])]"

text \<open>A first bucket with a timestamp list and no \<open>areas\<close>.\<close>

definition ex_no_areas :: jsval where
  "ex_no_areas =
     Obj [(ascii ''timeSeries'', Arr [Obj [(ascii ''timeDefines'', Arr [stamp ''2024-05-03''])]])]"

text \<open>Two report entries in which every value read for a number or a text is falsy.\<close>

definition ex_falsy :: "jsval list" where
  "ex_falsy =
     [Obj [(ascii ''reportDatetime'', Str (ascii ''2024-05-03T05:00:00+09:00'')),
           (ascii ''timeSeries'',
              Arr [Obj [(ascii ''timeDefines'', Arr [stamp ''2024-05-03'']),
                        (ascii ''areas'', Arr [Obj [(ascii ''weathers'', Arr [Str []])]])],
                   Obj [(ascii ''areas'',
                           Arr [Obj [(ascii ''pops'', Arr [Num Zero]),
                                     (ascii ''temps'', Arr [Bool False])]])],
                   area_with ''temps'' [Num Zero]])],
      Obj [(ascii ''timeSeries'',
              Arr [Null, Null, area_with ''temps'' [Str (ascii ''12''), Str []]])]]"

text \<open>A time-series section without buckets, and one whose only bucket is empty.\<close>

definition ex_no_buckets :: jsval where
  "ex_no_buckets = Obj [(ascii ''timeSeries'', Arr [])]"

definition ex_empty_bucket :: jsval where
  "ex_empty_bucket = Obj [(ascii ''timeSeries'', Arr [Obj []])]"

text \<open>A first report entry with two days of every list.\<close>

definition ex_full :: jsval where
  "ex_full =
     Obj [(ascii ''reportDatetime'', Str (ascii ''2024-05-03T05:00:00+09:00'')),
          (ascii ''timeSeries'',
             Arr [Obj [(ascii ''timeDefines'', Arr [stamp ''2024-05-03'', stamp ''2024-05-04'']),
                       (ascii ''areas'', Arr [Obj [(ascii ''weathers'', Arr [Str [0x6674, 0x308C], Str [0x96E8]])]])],
                  Obj [(ascii ''areas'',
                          Arr [Obj [(ascii ''pops'', Arr [Str (ascii ''10'')]),
                                    (ascii ''temps'', Arr [Str (ascii ''21''), Str (ascii ''19'')])]])],
                  area_with ''temps'' [Str (ascii ''12''), Str (ascii ''11'')]])]"

text \<open>The entry of \<open>ex_entry0\<close> with a third bucket that has no \<open>areas\<close>.\<close>

definition ex_third_bucket_empty :: jsval where
  "ex_third_bucket_empty =
     Obj [(ascii ''reportDatetime'', Str (ascii ''2024-05-03T05:00:00+09:00'')),
          (ascii ''timeSeries'',
             Arr [area_with ''weathers'' [Str [0x6674, 0x308C]],
                  area_with ''pops'' [Str (ascii ''10'')],
                  Obj []])]"

text \<open>A transport that answers every request with the given body, and one that fails.\<close>

definition serving :: "jsval list \<Rightarrow> transport" where
  "serving body = (\<lambda>url. Resolved \<lparr>ok = True, json = Resolved (Some body)\<rparr>)"

definition offline :: transport where
  "offline = (\<lambda>url. Rejected)"

text \<open>
  View states: after the first fetch succeeded, after the user then chose another
  region and that fetch failed, and after a first fetch whose payload yields today's
  summary only.
\<close>

definition ex_after_success :: view_state where
  "ex_after_success = fetchData utc_getDate (serving [ex_full]) initial_state"

definition ex_after_failure :: view_state where
  "ex_after_failure = fetchData utc_getDate offline (setSelectedArea Osaka ex_after_success)"

definition ex_partial :: view_state where
  "ex_partial = fetchData utc_getDate (serving [ex_third_bucket_empty]) initial_state"

section \<open>Basic facts\<close>

lemma and_then_Inl [simp]: "and_then (Inl e) f = Inl e"
  by (simp add: and_then_def)

lemma and_then_Inr [simp]: "and_then (Inr v) f = f v"
  by (simp add: and_then_def)

lemma and_then_eq_Inr: "and_then r f = Inr y \<longleftrightarrow> (\<exists>v. r = Inr v \<and> f v = Inr y)"
  by (cases r) auto

lemma js_index_Inr_not_nullish: "js_index v i = Inr w \<Longrightarrow> \<not> nullish v"
  by (cases v) auto

lemma js_field_Inr_not_nullish: "js_field v p = Inr w \<Longrightarrow> \<not> nullish v"
  by (cases v) auto

lemma js_index_total: "\<not> nullish v \<Longrightarrow> \<exists>w. js_index v i = Inr w"
  by (cases v) (auto split: option.splits)

lemma js_field_total: "\<not> nullish v \<Longrightarrow> \<exists>w. js_field v p = Inr w"
  by (cases v) (auto split: option.splits)

lemma value_at_Undefined [simp]: "value_at Undefined ss = Undefined"
proof (induction ss)
  case Nil
  then show ?case by simp
next
  case (Cons s ss)
  then show ?case by (cases s) (simp_all add: js_split_T_def)
qed

lemma value_at_nullish: "nullish v \<Longrightarrow> ss \<noteq> [] \<Longrightarrow> value_at v ss = Undefined"
  by (cases ss; cases v; cases "hd ss") (auto simp: js_split_T_def)

lemma access_value_at: "access v ss = Inr w \<Longrightarrow> value_at v (map plain ss) = w"
proof (induction ss arbitrary: v)
  case Nil
  then show ?case by simp
next
  case (Cons s ss)
  show ?case
  proof (cases s)
    case (Idx i)
    with Cons show ?thesis by (auto simp: and_then_eq_Inr)
  next
    case (Fld p)
    with Cons show ?thesis by (auto simp: and_then_eq_Inr)
  next
    case (OptFld p)
    show ?thesis
    proof (cases "nullish v")
      case True
      with Cons.prems OptFld have "w = Undefined" by simp
      moreover from True have "value_at v (map plain (s # ss)) = Undefined"
        by (intro value_at_nullish) simp_all
      ultimately show ?thesis by simp
    next
      case False
      with Cons OptFld show ?thesis by (auto simp: and_then_eq_Inr)
    qed
  next
    case SplitT
    with Cons show ?thesis by (auto simp: and_then_eq_Inr)
  qed
qed

lemma value_at_access:
  "value_at v (map plain ss) = w \<Longrightarrow> \<not> nullish w \<Longrightarrow> access v ss = Inr w"
proof (induction ss arbitrary: v)
  case Nil
  then show ?case by simp
next
  case (Cons s ss)
  show ?case
  proof (cases s)
    case (Idx i)
    with Cons.prems obtain x where "js_index v i = Inr x" "value_at x (map plain ss) = w"
      by (cases "js_index v i") auto
    with Cons Idx show ?thesis by simp
  next
    case (Fld p)
    with Cons.prems obtain x where "js_field v p = Inr x" "value_at x (map plain ss) = w"
      by (cases "js_field v p") auto
    with Cons Fld show ?thesis by simp
  next
    case (OptFld p)
    with Cons.prems obtain x where x: "js_field v p = Inr x" "value_at x (map plain ss) = w"
      by (cases "js_field v p") auto
    then have "\<not> nullish v" by (simp add: js_field_Inr_not_nullish)
    with Cons OptFld x show ?thesis by simp
  next
    case SplitT
    with Cons.prems obtain x where "js_split_T v = Inr x" "value_at x (map plain ss) = w"
      by (cases "js_split_T v") auto
    with Cons SplitT show ?thesis by simp
  qed
qed

lemma with_unit_Inr:
  assumes "with_unit c v u = Inr t" "c = access a ss" "v = access a ss'" "map plain ss' = map plain ss"
  shows "t = (let x = value_at a (map plain ss) in if truthy x then text_of x @ u else unknown)"
proof -
  from assms(1) obtain cv where cv: "c = Inr cv"
    by (auto simp: with_unit_def and_then_eq_Inr)
  with assms(2) have x: "value_at a (map plain ss) = cv"
    by (simp add: access_value_at)
  show ?thesis
  proof (cases "truthy cv")
    case False
    with assms(1) cv x show ?thesis by (simp add: with_unit_def)
  next
    case True
    with assms(1) cv obtain y s where y: "v = Inr y" "ToString y = Inr s" "t = s @ u"
      by (auto simp: with_unit_def and_then_eq_Inr)
    with assms(3,4) have "value_at a (map plain ss) = y"
      using access_value_at [of a ss' y] by simp
    with x y True show ?thesis by (simp add: text_of_def)
  qed
qed

lemma today_try_Inr:
  "today_try D data = Inr r \<longleftrightarrow>
     (\<exists>d w t p. rawDate data = Inr d \<and> weatherText data = Inr w \<and> temperature_text data = Inr t \<and>
        precipitation_text data = Inr p \<and>
        r = \<lparr>today_summary.date = formatDate D d, weather = getWeatherText w,
             temperature = t, precipitation = p\<rparr>)"
  unfolding today_try_def and_then_eq_Inr by auto

lemma today_try_fields:
  assumes "today_try D data = Inr r"
  shows "today_summary.date r = formatDate D (value_at (Arr data) [Idx 0, Fld reportDatetime, SplitT, Idx 0])"
    and "today_summary.weather r =
           getWeatherText (js_or (value_at (Arr data) [Idx 0, Fld timeSeries, Idx 0, Fld areas, Idx 0, Fld weathers, Idx 0]) (Str unknown))"
    and "temperature r =
           (let x = value_at (Arr data) [Idx 1, Fld timeSeries, Idx 2, Fld areas, Idx 0, Fld temps, Idx 1]
            in if truthy x then text_of x @ degC else unknown)"
    and "precipitation r =
           (let x = value_at (Arr data) [Idx 0, Fld timeSeries, Idx 1, Fld areas, Idx 0, Fld pops, Idx 0]
            in if truthy x then text_of x @ percent else unknown)"
proof -
  from assms obtain d w t p where
    a: "rawDate data = Inr d" and
    b: "weatherText data = Inr w" and
    c: "temperature_text data = Inr t" and
    e: "precipitation_text data = Inr p" and
    r: "r = \<lparr>today_summary.date = formatDate D d, weather = getWeatherText w,
          temperature = t, precipitation = p\<rparr>"
    unfolding today_try_Inr by blast
  from access_value_at [OF a [unfolded rawDate_def]] r
  show "today_summary.date r = formatDate D (value_at (Arr data) [Idx 0, Fld reportDatetime, SplitT, Idx 0])"
    by simp
  from b obtain w0 where
    w0: "access (Arr data) [Idx 0, OptFld timeSeries, Idx 0, OptFld areas, Idx 0, OptFld weathers, Idx 0] = Inr w0"
      "w = js_or w0 (Str unknown)"
    unfolding weatherText_def and_then_eq_Inr by auto
  from access_value_at [OF w0(1)] w0(2) r
  show "today_summary.weather r =
           getWeatherText (js_or (value_at (Arr data) [Idx 0, Fld timeSeries, Idx 0, Fld areas, Idx 0, Fld weathers, Idx 0]) (Str unknown))"
    by simp
  from with_unit_Inr [OF c [unfolded temperature_text_def] refl refl] r
  show "temperature r =
           (let x = value_at (Arr data) [Idx 1, Fld timeSeries, Idx 2, Fld areas, Idx 0, Fld temps, Idx 1]
            in if truthy x then text_of x @ degC else unknown)"
    by simp
  from with_unit_Inr [OF e [unfolded precipitation_text_def] refl refl] r
  show "precipitation r =
           (let x = value_at (Arr data) [Idx 0, Fld timeSeries, Idx 1, Fld areas, Idx 0, Fld pops, Idx 0]
            in if truthy x then text_of x @ percent else unknown)"
    by simp
qed

lemma js_split_not_Nil [simp]: "js_split sep s \<noteq> []"
  by (induction s) (auto simp: Let_def)

lemma split_T_first:
  "access (Str s) [SplitT, Idx 0] = Inr (Str (hd (js_split 0x54 s)))"
  by (cases "js_split 0x54 s") (auto simp: js_split_T_def)

lemma with_unit_absent [simp]: "with_unit (Inr Undefined) v u = Inr unknown"
  by (simp add: with_unit_def)

lemma with_unit_present:
  "truthy x \<Longrightarrow> ToString x = Inr s \<Longrightarrow> with_unit (Inr x) (Inr x) u = Inr (s @ u)"
  by (simp add: with_unit_def)

lemma truthy_not_nullish: "truthy v \<Longrightarrow> \<not> nullish v"
  by (cases v) auto

lemma extractTodayWeather_Some: "extractTodayWeather D (Some data) = Some r \<Longrightarrow> today_try D data = Inr r"
  by (auto simp: extractTodayWeather_def split: if_splits sum.splits)

lemma today_single_entry:
  assumes "extractTodayWeather D (Some [e0]) = Some r"
  shows "temperature r = unknown \<and>
      today_summary.date r = formatDate D (value_at e0 [Fld reportDatetime, SplitT, Idx 0]) \<and>
      today_summary.weather r =
        getWeatherText
          (js_or (value_at e0 [Fld timeSeries, Idx 0, Fld areas, Idx 0, Fld weathers, Idx 0]) (Str unknown)) \<and>
      precipitation r =
        (let x = value_at e0 [Fld timeSeries, Idx 1, Fld areas, Idx 0, Fld pops, Idx 0]
         in if truthy x then text_of x @ percent else unknown)"
proof -
  from assms have t: "today_try D [e0] = Inr r" by (rule extractTodayWeather_Some)
  from today_try_fields(3) [OF t] have "temperature r = unknown" by simp
  moreover from today_try_fields(1) [OF t]
  have "today_summary.date r = formatDate D (value_at e0 [Fld reportDatetime, SplitT, Idx 0])" by simp
  moreover from today_try_fields(2) [OF t]
  have "today_summary.weather r =
        getWeatherText
          (js_or (value_at e0 [Fld timeSeries, Idx 0, Fld areas, Idx 0, Fld weathers, Idx 0]) (Str unknown))"
    by simp
  moreover from today_try_fields(4) [OF t]
  have "precipitation r =
        (let x = value_at e0 [Fld timeSeries, Idx 1, Fld areas, Idx 0, Fld pops, Idx 0]
         in if truthy x then text_of x @ percent else unknown)"
    by simp
  ultimately show ?thesis by blast
qed

lemma today_populated_entry:
  assumes h: "value_at e0 [Fld reportDatetime] = Str s"
    "value_at e0 [Fld timeSeries, Idx 0, Fld areas, Idx 0, Fld weathers, Idx 0] = w" "truthy w"
    "value_at e0 [Fld timeSeries, Idx 1, Fld areas, Idx 0, Fld pops, Idx 0] = p" "truthy p"
    "ToString p = Inr ps"
  shows "extractTodayWeather D (Some [e0]) =
        Some \<lparr>today_summary.date = formatDate D (Str (hd (js_split 0x54 s))),
              weather = getWeatherText w,
              temperature = unknown,
              precipitation = ps @ percent\<rparr>"
proof -
  have d: "access (Arr [e0]) [Idx 0, OptFld reportDatetime] = Inr (Str s)"
    using h by (intro value_at_access) simp_all
  then have d': "access (Arr [e0]) [Idx 0, OptFld reportDatetime, SplitT, Idx 0] = Inr (Str (hd (js_split 0x54 s)))"
    using split_T_first [of s] by (auto simp: and_then_eq_Inr split: if_splits)
  have w: "access (Arr [e0]) [Idx 0, OptFld timeSeries, Idx 0, OptFld areas, Idx 0, OptFld weathers, Idx 0] = Inr w"
    using h by (intro value_at_access) (simp_all add: truthy_not_nullish)
  have p1: "access (Arr [e0]) [Idx 0, OptFld timeSeries, Idx 1, OptFld areas, Idx 0, OptFld pops, Idx 0] = Inr p"
    using h by (intro value_at_access) (simp_all add: truthy_not_nullish)
  have p2: "access (Arr [e0]) [Idx 0, Fld timeSeries, Idx 1, OptFld areas, Idx 0, OptFld pops, Idx 0] = Inr p"
    using h by (intro value_at_access) (simp_all add: truthy_not_nullish)
  have t: "access (Arr [e0]) [Idx 1, OptFld timeSeries, Idx 2, OptFld areas, Idx 0, OptFld temps, Idx 1] = Inr Undefined"
    by simp
  have "today_try D [e0] = Inr \<lparr>today_summary.date = formatDate D (Str (hd (js_split 0x54 s))),
              weather = getWeatherText w,
              temperature = unknown,
              precipitation = ps @ percent\<rparr>"
    unfolding today_try_def rawDate_def weatherText_def temperature_text_def precipitation_text_def
      d' w p1 p2 t using h
    by (simp add: with_unit_present js_or_def)
  then show ?thesis
    by (simp add: extractTodayWeather_def)
qed

lemma today_two_entries:
  assumes h: "value_at e0 [Fld reportDatetime] = Str s"
    "value_at e0 [Fld timeSeries, Idx 0, Fld areas, Idx 0, Fld weathers, Idx 0] = w" "truthy w"
    "value_at e0 [Fld timeSeries, Idx 1, Fld areas, Idx 0, Fld pops, Idx 0] = p" "truthy p"
    "ToString p = Inr ps"
    "value_at e1 [Fld timeSeries, Idx 2, Fld areas, Idx 0, Fld temps, Idx 1] = t" "truthy t"
    "ToString t = Inr ts"
  shows "extractTodayWeather D (Some (e0 # e1 # rest)) =
        Some \<lparr>today_summary.date = formatDate D (Str (hd (js_split 0x54 s))),
              weather = getWeatherText w,
              temperature = ts @ degC,
              precipitation = ps @ percent\<rparr>"
proof -
  let ?data = "e0 # e1 # rest"
  have d: "access (Arr ?data) [Idx 0, OptFld reportDatetime] = Inr (Str s)"
    using h by (intro value_at_access) simp_all
  then have d': "access (Arr ?data) [Idx 0, OptFld reportDatetime, SplitT, Idx 0] = Inr (Str (hd (js_split 0x54 s)))"
    using split_T_first [of s] by (auto simp: and_then_eq_Inr split: if_splits)
  have w: "access (Arr ?data) [Idx 0, OptFld timeSeries, Idx 0, OptFld areas, Idx 0, OptFld weathers, Idx 0] = Inr w"
    using h by (intro value_at_access) (simp_all add: truthy_not_nullish)
  have p1: "access (Arr ?data) [Idx 0, OptFld timeSeries, Idx 1, OptFld areas, Idx 0, OptFld pops, Idx 0] = Inr p"
    using h by (intro value_at_access) (simp_all add: truthy_not_nullish)
  have p2: "access (Arr ?data) [Idx 0, Fld timeSeries, Idx 1, OptFld areas, Idx 0, OptFld pops, Idx 0] = Inr p"
    using h by (intro value_at_access) (simp_all add: truthy_not_nullish)
  have t1: "access (Arr ?data) [Idx 1, OptFld timeSeries, Idx 2, OptFld areas, Idx 0, OptFld temps, Idx 1] = Inr t"
    using h by (intro value_at_access) (simp_all add: truthy_not_nullish)
  have t2: "access (Arr ?data) [Idx 1, Fld timeSeries, Idx 2, Fld areas, Idx 0, Fld temps, Idx 1] = Inr t"
    using h by (intro value_at_access) (simp_all add: truthy_not_nullish)
  have "today_try D ?data = Inr \<lparr>today_summary.date = formatDate D (Str (hd (js_split 0x54 s))),
              weather = getWeatherText w,
              temperature = ts @ degC,
              precipitation = ps @ percent\<rparr>"
    unfolding today_try_def rawDate_def weatherText_def temperature_text_def precipitation_text_def
      d' w p1 p2 t1 t2 using h
    by (simp add: with_unit_present js_or_def)
  then show ?thesis
    by (simp add: extractTodayWeather_def)
qed

lemma js_includes_Nil_glyph [simp]: "js_includes [] [c] = False" by simp

lemma starts_with_glyph: "starts_with s [c] = (s \<noteq> [] \<and> hd s = c)"
  by (cases s) auto

lemma js_includes_glyph: "js_includes s [c] = (c \<in> set s)"
  by (induction s) (auto simp: starts_with_glyph)

lemma day_label_not_unknown: "t @ day_suffix \<noteq> unknown"
proof
  assume "t @ day_suffix = unknown"
  then have "last (t @ day_suffix) = last unknown" by simp
  then show False by (simp add: day_suffix_def unknown_def)
qed

lemma value_at_append: "value_at v (ss @ ts) = value_at (value_at v ss) ts"
  by (induction ss arbitrary: v) (auto split: sum.splits)

lemma access_append:
  "access v ss = Inr w \<Longrightarrow> \<not> nullish w \<Longrightarrow> access v (ss @ ts) = access w ts"
proof (induction ss arbitrary: v)
  case Nil
  then show ?case by simp
next
  case (Cons s ss)
  then show ?case
    by (cases s) (auto simp: and_then_eq_Inr split: if_splits)
qed

lemma guarded_tl: "guarded (s # ss) \<Longrightarrow> guarded ss"
  by (cases s; cases ss) simp_all

lemma guarded_drop: "guarded ss \<Longrightarrow> guarded (drop n ss)"
proof (induction n arbitrary: ss)
  case 0
  then show ?case by simp
next
  case (Suc n)
  show ?case
  proof (cases ss)
    case Nil
    then show ?thesis by simp
  next
    case (Cons s rest)
    with Suc.prems have "guarded rest" by (simp add: guarded_tl)
    with Cons Suc.IH show ?thesis by simp
  qed
qed

lemma absent_guarded:
  assumes "guarded ss" "absent v ss n"
  shows "\<exists>x. access v ss = Inr x \<and> nullish x"
proof -
  from assms(2) obtain i where n: "n < length ss" "ss ! n = Idx i"
    and c: "\<not> nullish (value_at v (map plain (take n ss)))"
    and x: "nullish (value_at v (map plain (take (Suc n) ss)))"
    by (auto simp: absent_def split: step.splits)
  define rest where "rest = drop (Suc n) ss"
  from n have ss: "ss = take n ss @ Idx i # rest"
    unfolding rest_def by (metis id_take_nth_drop)
  have pre: "access v (take n ss) = Inr (value_at v (map plain (take n ss)))"
    using c by (intro value_at_access) simp_all
  obtain y where y: "js_index (value_at v (map plain (take n ss))) i = Inr y"
    using js_index_total [OF c] by blast
  from n have "take (Suc n) ss = take n ss @ [Idx i]"
    by (simp add: take_Suc_conv_app_nth)
  then have "value_at v (map plain (take (Suc n) ss)) = y"
    using y by (simp add: value_at_append)
  with x have ny: "nullish y" by simp
  from assms(1) have "guarded (drop n ss)" by (rule guarded_drop)
  moreover from n have "drop n ss = Idx i # rest"
    unfolding rest_def by (metis Cons_nth_drop_Suc)
  ultimately have g: "guarded (Idx i # rest)" by simp
  have "access v ss = access (value_at v (map plain (take n ss))) (Idx i # rest)"
    using access_append [OF pre c, of "Idx i # rest"] ss by simp
  also have "\<dots> = access y rest" using y by simp
  finally have a: "access v ss = access y rest" .
  show ?thesis
  proof (cases rest)
    case Nil
    with a ny show ?thesis by simp
  next
    case (Cons s rest')
    with g obtain p where "s = OptFld p" by (cases s) auto
    with a ny Cons show ?thesis by simp
  qed
qed

lemma not_truthy_nullish: "nullish x \<Longrightarrow> \<not> truthy x"
  by (cases x) auto

lemma with_unit_nullish: "nullish x \<Longrightarrow> with_unit (Inr x) v u = Inr unknown"
  by (simp add: with_unit_def not_truthy_nullish)

lemma getWeatherText_unknown: "getWeatherText (Str unknown) = unknown"
  by (simp add: getWeatherText_def unknown_def)

lemma today_absent_date:
  assumes "absent (Arr data) [Idx 0, OptFld reportDatetime, SplitT, Idx 0] n"
  shows "\<exists>x. rawDate data = Inr x \<and> formatDate D x = unknown"
proof -
  from absent_guarded [OF _ assms] obtain x where "rawDate data = Inr x" "nullish x"
    by (auto simp: rawDate_def)
  then show ?thesis by (auto simp: formatDate_def not_truthy_nullish)
qed

lemma today_absent_weather:
  assumes "absent (Arr data) [Idx 0, OptFld timeSeries, Idx 0, OptFld areas, Idx 0, OptFld weathers, Idx 0] n"
  shows "weatherText data = Inr (Str unknown)"
proof -
  from absent_guarded [OF _ assms] obtain x where
    "access (Arr data) [Idx 0, OptFld timeSeries, Idx 0, OptFld areas, Idx 0, OptFld weathers, Idx 0] = Inr x"
    "nullish x"
    by auto
  then show ?thesis by (simp add: weatherText_def js_or_def not_truthy_nullish)
qed

lemma today_absent_temperature:
  assumes "absent (Arr data) [Idx 1, OptFld timeSeries, Idx 2, OptFld areas, Idx 0, OptFld temps, Idx 1] n"
  shows "temperature_text data = Inr unknown"
proof -
  from absent_guarded [OF _ assms] obtain x where
    "access (Arr data) [Idx 1, OptFld timeSeries, Idx 2, OptFld areas, Idx 0, OptFld temps, Idx 1] = Inr x"
    "nullish x"
    by auto
  then show ?thesis by (simp add: temperature_text_def with_unit_nullish)
qed

lemma today_absent_precipitation:
  assumes "absent (Arr data) [Idx 0, OptFld timeSeries, Idx 1, OptFld areas, Idx 0, OptFld pops, Idx 0] n"
  shows "precipitation_text data = Inr unknown"
proof -
  from absent_guarded [OF _ assms] obtain x where
    "access (Arr data) [Idx 0, OptFld timeSeries, Idx 1, OptFld areas, Idx 0, OptFld pops, Idx 0] = Inr x"
    "nullish x"
    by auto
  then show ?thesis by (simp add: precipitation_text_def with_unit_nullish)
qed

lemma Inl_TypeError: "(r = Inl TypeError) = (\<forall>v. r \<noteq> Inr v)"
  by (cases r) (auto intro: error.exhaust)

lemma extractTodayWeather_None:
  assumes "data \<noteq> []"
  shows "extractTodayWeather D (Some data) = None \<longleftrightarrow>
     rawDate data = Inl TypeError \<or> weatherText data = Inl TypeError \<or>
     temperature_text data = Inl TypeError \<or> precipitation_text data = Inl TypeError"
proof -
  have "extractTodayWeather D (Some data) = None \<longleftrightarrow> (\<forall>r. today_try D data \<noteq> Inr r)"
    using assms by (auto simp: extractTodayWeather_def split: sum.splits)
  also have "\<dots> \<longleftrightarrow> rawDate data = Inl TypeError \<or> weatherText data = Inl TypeError \<or>
     temperature_text data = Inl TypeError \<or> precipitation_text data = Inl TypeError"
    unfolding today_try_Inr Inl_TypeError by blast
  finally show ?thesis .
qed

lemma extractTodayWeather_all_fields:
  assumes "data \<noteq> []" "rawDate data = Inr d" "weatherText data = Inr w"
    "temperature_text data = Inr t" "precipitation_text data = Inr p"
  shows "extractTodayWeather D (Some data) =
     Some \<lparr>today_summary.date = formatDate D d, weather = getWeatherText w,
           temperature = t, precipitation = p\<rparr>"
  using assms by (simp add: extractTodayWeather_def today_try_def)

lemma and_then_Inr_id [simp]: "and_then r Inr = r"
  by (cases r) auto

lemma collect_Inr:
  "collect rs = Inr vs \<Longrightarrow> length vs = length rs \<and> (\<forall>i < length rs. rs ! i = Inr (vs ! i))"
proof (induction rs arbitrary: vs)
  case Nil
  then show ?case by simp
next
  case (Cons r rs)
  from Cons.prems obtain v ws where v: "r = Inr v" "collect rs = Inr ws" "vs = v # ws"
    by (auto simp: and_then_eq_Inr)
  with Cons.IH [of ws] show ?case by (auto simp: nth_Cons')
qed

lemma slice3_map_Inr:
  assumes "slice3_map v f = Inr rs"
  shows "\<exists>xs. v = Arr xs \<and> length rs = min 3 (length xs) \<and> (\<forall>i < length rs. f (xs ! i) i = Inr (rs ! i))"
proof -
  from assms obtain xs where xs: "v = Arr xs"
    and c: "collect (map (\<lambda>(i, x). f x i) (enumerate 0 (take 3 xs))) = Inr rs"
    by (cases v) (auto simp: slice3_map_def)
  from collect_Inr [OF c] have l: "length rs = min 3 (length xs)"
    and n: "\<forall>i < min 3 (length xs). map (\<lambda>(i, x). f x i) (enumerate 0 (take 3 xs)) ! i = Inr (rs ! i)"
    by (simp_all add: min.commute)
  have "f (xs ! i) i = Inr (rs ! i)" if "i < length rs" for i
  proof -
    from that l have i: "i < min 3 (length xs)" by simp
    then have "enumerate 0 (take 3 xs) ! i = (i, xs ! i)"
      by (simp add: nth_enumerate_eq)
    with n i show ?thesis by (auto simp: min.commute)
  qed
  with xs l show ?thesis by blast
qed

lemma value_at_index_falsy:
  assumes "\<not> truthy w"
  shows "value_at w [Idx i] = Undefined"
proof (cases w)
  case (Num n)
  show ?thesis by (cases n) (use Num assms in simp_all)
qed (use assms in simp_all)

lemma value_at_js_or_index: "value_at (js_or w (Arr [])) [Idx i] = value_at w [Idx i]"
proof (cases "truthy w")
  case True
  then show ?thesis by (simp add: js_or_def)
next
  case False
  then have "value_at w [Idx i] = Undefined" by (rule value_at_index_falsy)
  moreover from False have "js_or w (Arr []) = Arr []" by (simp add: js_or_def)
  ultimately show ?thesis by simp
qed

lemma with_unit_index:
  assumes "with_unit (js_index a i) (js_index a i) u = Inr t"
  shows "t = (let x = value_at a [Idx i] in if truthy x then text_of x @ u else unknown)"
proof -
  have a: "js_index a i = access a [Idx i]" by simp
  from with_unit_Inr [OF assms a a refl] show ?thesis by simp
qed

lemma day_of_Inr:
  assumes "day_of D ws hi lo d i = Inr r"
  shows "r = \<lparr>day_summary.date = formatDate D (value_at d [SplitT, Idx 0]),
      weather = (let w = value_at ws [Idx i] in if truthy w then getWeatherText w else unknown),
      maxTemp = (let x = value_at hi [Idx i] in if truthy x then text_of x @ degC else unknown),
      minTemp = (let x = value_at lo [Idx i] in if truthy x then text_of x @ degC else unknown)\<rparr>"
proof -
  from assms obtain dv w th tl where
    a: "access d [SplitT, Idx 0] = Inr dv" and
    b: "js_index ws i = Inr w" and
    c: "with_unit (js_index hi i) (js_index hi i) degC = Inr th" and
    e: "with_unit (js_index lo i) (js_index lo i) degC = Inr tl" and
    r: "r = \<lparr>day_summary.date = formatDate D dv,
          weather = (if truthy w then getWeatherText w else unknown),
          maxTemp = th, minTemp = tl\<rparr>"
    unfolding day_of_def and_then_eq_Inr by blast
  from access_value_at [OF a] have "value_at d [SplitT, Idx 0] = dv" by simp
  moreover from b have "value_at ws [Idx i] = w" by simp
  moreover note with_unit_index [OF c] with_unit_index [OF e]
  ultimately show ?thesis using r by simp
qed

lemma threeDay_try_Some:
  assumes "threeDay_try D data = Inr (Some rs)"
  shows "\<exists>ds. js_or (value_at (Arr data) [Idx 0, Fld timeSeries, Idx 0, Fld timeDefines]) (Arr []) = Arr ds \<and>
     rs = map (day_at D data) [0 ..< min 3 (length ds)]"
proof -
  obtain e0 where e0: "js_index (Arr data) 0 = Inr e0" by (cases "0 < length data") auto
  then have v0: "value_at (Arr data) (Idx 0 # ss) = value_at e0 ss" for ss by simp
  from assms e0 have te: "truthy e0"
    by (auto simp: threeDay_try_def split: if_splits)
  from te obtain ts where ts: "js_field e0 timeSeries = Inr ts"
    using js_field_total [OF truthy_not_nullish] by blast
  with assms e0 te have tt: "truthy ts"
    by (auto simp: threeDay_try_def split: if_splits)
  from assms e0 te ts tt have
    "and_then (access e0 [Fld timeSeries, Idx 0, OptFld timeDefines]) (\<lambda>d.
     and_then (access e0 [Fld timeSeries, Idx 0, OptFld areas, Idx 0, OptFld weathers]) (\<lambda>w.
     and_then (access e0 [Fld timeSeries, Idx 1, OptFld areas, Idx 0, OptFld temps]) (\<lambda>hi.
     and_then (access e0 [Fld timeSeries, Idx 2, OptFld areas, Idx 0, OptFld temps]) (\<lambda>lo.
     and_then (slice3_map (js_or d (Arr []))
        (day_of D (js_or w (Arr [])) (js_or hi (Arr [])) (js_or lo (Arr []))))
       (\<lambda>rs. Inr (Some rs)))))) = Inr (Some rs)"
    by (simp add: threeDay_try_def Let_def del: access.simps)
  then obtain d w hi lo where
    d: "access e0 [Fld timeSeries, Idx 0, OptFld timeDefines] = Inr d" and
    w: "access e0 [Fld timeSeries, Idx 0, OptFld areas, Idx 0, OptFld weathers] = Inr w" and
    hi: "access e0 [Fld timeSeries, Idx 1, OptFld areas, Idx 0, OptFld temps] = Inr hi" and
    lo: "access e0 [Fld timeSeries, Idx 2, OptFld areas, Idx 0, OptFld temps] = Inr lo" and
    m: "slice3_map (js_or d (Arr [])) (day_of D (js_or w (Arr [])) (js_or hi (Arr [])) (js_or lo (Arr []))) = Inr rs"
    unfolding and_then_eq_Inr by (auto simp del: access.simps)
  have vd: "value_at e0 [Fld timeSeries, Idx 0, Fld timeDefines] = d"
    using access_value_at [OF d] by (simp del: value_at.simps)
  have vw: "value_at e0 [Fld timeSeries, Idx 0, Fld areas, Idx 0, Fld weathers] = w"
    using access_value_at [OF w] by (simp del: value_at.simps)
  have vhi: "value_at e0 [Fld timeSeries, Idx 1, Fld areas, Idx 0, Fld temps] = hi"
    using access_value_at [OF hi] by (simp del: value_at.simps)
  have vlo: "value_at e0 [Fld timeSeries, Idx 2, Fld areas, Idx 0, Fld temps] = lo"
    using access_value_at [OF lo] by (simp del: value_at.simps)
  from slice3_map_Inr [OF m] obtain ds where
    ds: "js_or d (Arr []) = Arr ds" and l: "length rs = min 3 (length ds)" and
    f: "\<forall>i < length rs. day_of D (js_or w (Arr [])) (js_or hi (Arr [])) (js_or lo (Arr [])) (ds ! i) i = Inr (rs ! i)"
    by blast
  have dsi: "value_at d [Idx i] = ds ! i" if "i < length ds" for i
    using ds that by (cases "truthy d") (auto simp: js_or_def)
  have "rs ! i = day_at D data i" if i: "i < length rs" for i
  proof -
    from i l have il: "i < length ds" by simp
    have p1: "value_at (Arr data) [Idx 0, Fld timeSeries, Idx 0, Fld timeDefines, Idx i, SplitT, Idx 0]
        = value_at (ds ! i) [SplitT, Idx 0]"
      using value_at_append [of e0 "[Fld timeSeries, Idx 0, Fld timeDefines]" "[Idx i, SplitT, Idx 0]"]
        value_at_append [of d "[Idx i]" "[SplitT, Idx 0]"] vd dsi [OF il]
      by (simp only: v0 append_Cons append_Nil)
    have p2: "value_at (Arr data) [Idx 0, Fld timeSeries, Idx 0, Fld areas, Idx 0, Fld weathers, Idx i]
        = value_at (js_or w (Arr [])) [Idx i]"
      using value_at_append [of e0 "[Fld timeSeries, Idx 0, Fld areas, Idx 0, Fld weathers]" "[Idx i]"] vw
      by (simp only: v0 append_Cons append_Nil value_at_js_or_index)
    have p3: "value_at (Arr data) [Idx 0, Fld timeSeries, Idx 1, Fld areas, Idx 0, Fld temps, Idx i]
        = value_at (js_or hi (Arr [])) [Idx i]"
      using value_at_append [of e0 "[Fld timeSeries, Idx 1, Fld areas, Idx 0, Fld temps]" "[Idx i]"] vhi
      by (simp only: v0 append_Cons append_Nil value_at_js_or_index)
    have p4: "value_at (Arr data) [Idx 0, Fld timeSeries, Idx 2, Fld areas, Idx 0, Fld temps, Idx i]
        = value_at (js_or lo (Arr [])) [Idx i]"
      using value_at_append [of e0 "[Fld timeSeries, Idx 2, Fld areas, Idx 0, Fld temps]" "[Idx i]"] vlo
      by (simp only: v0 append_Cons append_Nil value_at_js_or_index)
    from f i have "day_of D (js_or w (Arr [])) (js_or hi (Arr [])) (js_or lo (Arr [])) (ds ! i) i = Inr (rs ! i)"
      by blast
    from day_of_Inr [OF this] show ?thesis
      unfolding day_at_def p1 p2 p3 p4 .
  qed
  with l have "rs = map (day_at D data) [0 ..< min 3 (length ds)]"
    by (intro nth_equalityI) simp_all
  moreover from ds vd have "js_or (value_at (Arr data) [Idx 0, Fld timeSeries, Idx 0, Fld timeDefines]) (Arr []) = Arr ds"
    by (simp only: v0)
  ultimately show ?thesis by blast
qed

lemma extractThreeDayWeather_Some:
  "extractThreeDayWeather D (Some data) = Some rs \<Longrightarrow> threeDay_try D data = Inr (Some rs)"
  by (auto simp: extractThreeDayWeather_def split: if_splits sum.splits)

lemma day_at_short:
  assumes "value_at (Arr data) (ss @ [Idx i]) = x" "value_at (Arr data) ss = Arr xs" "length xs \<le> i"
  shows "x = Undefined"
  using assms by (simp add: value_at_append)

lemma falsy_present_not_truthy: "falsy_present v \<Longrightarrow> \<not> truthy v"
  by (auto simp: falsy_present_def)

lemma truthy_field_truthy:
  assumes "truthy (value_at e0 [Fld timeSeries])"
  shows "truthy e0 \<and> (\<exists>ts. js_field e0 timeSeries = Inr ts \<and> truthy ts \<and> value_at e0 [Fld timeSeries] = ts)"
  using assms by (cases e0) (auto split: option.splits)

lemma days_chain:
  assumes "js_field e0 timeSeries = Inr ts" "truthy ts"
  shows "access e0 [Fld timeSeries, Idx 0, OptFld timeDefines] =
     Inr (value_at e0 [Fld timeSeries, Idx 0, Fld timeDefines])"
proof -
  from assms(2) have "\<not> nullish ts" by (rule truthy_not_nullish)
  then obtain b where b: "js_index ts 0 = Inr b" using js_index_total by blast
  show ?thesis
  proof (cases "nullish b")
    case True
    with assms b show ?thesis by (cases b) (simp_all add: js_split_T_def)
  next
    case False
    then obtain d where "js_field b timeDefines = Inr d" using js_field_total by blast
    with assms b False show ?thesis by simp
  qed
qed

lemma slice3_map_empty [simp]: "slice3_map (Arr []) f = Inr []"
  by (simp add: slice3_map_def)

lemma threeDay_empty:
  assumes ts: "truthy (value_at e0 [Fld timeSeries])"
    and w: "access e0 [Fld timeSeries, Idx 0, OptFld areas, Idx 0, OptFld weathers] = Inr w"
    and hi: "access e0 [Fld timeSeries, Idx 1, OptFld areas, Idx 0, OptFld temps] = Inr hi"
    and lo: "access e0 [Fld timeSeries, Idx 2, OptFld areas, Idx 0, OptFld temps] = Inr lo"
    and d: "nullish (value_at e0 [Fld timeSeries, Idx 0]) \<or>
      \<not> truthy (value_at e0 [Fld timeSeries, Idx 0, Fld timeDefines]) \<or>
      value_at e0 [Fld timeSeries, Idx 0, Fld timeDefines] = Arr []"
  shows "extractThreeDayWeather D (Some (e0 # rest)) = Some []"
proof -
  from truthy_field_truthy [OF ts] obtain tv where
    e: "truthy e0" and tv: "js_field e0 timeSeries = Inr tv" "truthy tv"
    by blast
  have "nullish (value_at e0 [Fld timeSeries, Idx 0]) \<Longrightarrow>
      value_at e0 [Fld timeSeries, Idx 0, Fld timeDefines] = Undefined"
    using value_at_append [of e0 "[Fld timeSeries, Idx 0]" "[Fld timeDefines]"]
      value_at_nullish [of "value_at e0 [Fld timeSeries, Idx 0]" "[Fld timeDefines]"]
    by (simp del: value_at.simps)
  with d have "js_or (value_at e0 [Fld timeSeries, Idx 0, Fld timeDefines]) (Arr []) = Arr []"
    by (auto simp: js_or_def simp del: value_at.simps)
  with days_chain [OF tv] w hi lo e tv
  have "threeDay_try D (e0 # rest) = Inr (Some [])"
    by (simp add: threeDay_try_def Let_def del: access.simps value_at.simps)
  then show ?thesis by (simp add: extractThreeDayWeather_def)
qed

lemma threeDay_no_timeSeries:
  assumes "\<not> truthy (value_at (Arr data) [Idx 0, Fld timeSeries])"
  shows "extractThreeDayWeather D (Some data) = None"
proof (cases data)
  case Nil
  then show ?thesis by (simp add: extractThreeDayWeather_def)
next
  case (Cons e0 rest)
  show ?thesis
  proof (cases "truthy e0")
    case False
    with Cons show ?thesis by (simp add: extractThreeDayWeather_def threeDay_try_def)
  next
    case True
    then obtain ts where ts: "js_field e0 timeSeries = Inr ts"
      using js_field_total [OF truthy_not_nullish] by blast
    with assms Cons have "\<not> truthy ts" by simp
    with Cons True ts show ?thesis by (simp add: extractThreeDayWeather_def threeDay_try_def)
  qed
qed

lemma resume_empty_threeDay:
  assumes "extractThreeDayWeather D (Some data) = Some []"
  shows "threeDayWeather (fetchData_resume D st (Some data)) = Some [] \<and>
     error (fetchData_resume D st (Some data)) = error st"
  using assms by (simp add: fetchData_resume_def Let_def)

section \<open>Claims about the extraction of today's summary\<close>

text \<open>
  Claim C1. Whenever \<open>extractTodayWeather\<close> returns a summary, its temperature is the
  value the payload holds at second report entry, third time-series bucket, first area,
  second temperature value (index 1), printed with the degree suffix, or the placeholder
  when that value is absent or falsy. For a payload with exactly one report entry the
  temperature is the placeholder, and date, weather and precipitation are computed from
  entry 0; when entry 0 holds a timestamp string, a weather text and a probability, the
  summary is returned with the placeholder as temperature. When in addition a second
  entry holds a truthy value at third bucket, first area, index 1, the summary of the
  payload with both entries is returned and its temperature is that value printed with
  the degree suffix.
\<close>

theorem extractTodayWeather_sources:
  "(extractTodayWeather D (Some data) = Some r \<longrightarrow>
      temperature r =
        (let x = value_at (Arr data) [Idx 1, Fld timeSeries, Idx 2, Fld areas, Idx 0, Fld temps, Idx 1]
         in if truthy x then text_of x @ degC else unknown)) \<and>
   (extractTodayWeather D (Some [e0]) = Some r \<longrightarrow>
      temperature r = unknown \<and>
      today_summary.date r = formatDate D (value_at e0 [Fld reportDatetime, SplitT, Idx 0]) \<and>
      today_summary.weather r =
        getWeatherText
          (js_or (value_at e0 [Fld timeSeries, Idx 0, Fld areas, Idx 0, Fld weathers, Idx 0]) (Str unknown)) \<and>
      precipitation r =
        (let x = value_at e0 [Fld timeSeries, Idx 1, Fld areas, Idx 0, Fld pops, Idx 0]
         in if truthy x then text_of x @ percent else unknown)) \<and>
   (value_at e0 [Fld reportDatetime] = Str s \<and>
    value_at e0 [Fld timeSeries, Idx 0, Fld areas, Idx 0, Fld weathers, Idx 0] = w \<and> truthy w \<and>
    value_at e0 [Fld timeSeries, Idx 1, Fld areas, Idx 0, Fld pops, Idx 0] = p \<and> truthy p \<and>
    ToString p = Inr ps \<longrightarrow>
      extractTodayWeather D (Some [e0]) =
        Some \<lparr>today_summary.date = formatDate D (Str (hd (js_split 0x54 s))),
              weather = getWeatherText w,
              temperature = unknown,
              precipitation = ps @ percent\<rparr> \<and>
      (value_at e1 [Fld timeSeries, Idx 2, Fld areas, Idx 0, Fld temps, Idx 1] = t \<and> truthy t \<and>
       ToString t = Inr ts \<longrightarrow>
         extractTodayWeather D (Some (e0 # e1 # rest)) =
           Some \<lparr>today_summary.date = formatDate D (Str (hd (js_split 0x54 s))),
                 weather = getWeatherText w,
                 temperature = ts @ degC,
                 precipitation = ps @ percent\<rparr>))"
  using today_try_fields(3) [OF extractTodayWeather_Some, of D data r]
    today_single_entry [of D e0 r] today_populated_entry [of e0 s w p ps D]
    today_two_entries [of e0 s w p ps e1 t ts D rest]
  by blast

theorem extractTodayWeather_sources_witness:
  "extractTodayWeather utc_getDate (Some [ex_entry0]) =
     Some \<lparr>today_summary.date = [0x33, 0x65E5], weather = sunny, temperature = unknown,
           precipitation = [0x31, 0x30, 0x25]\<rparr> \<and>
   extractTodayWeather utc_getDate (Some [ex_entry0, ex_entry1]) =
     Some \<lparr>today_summary.date = [0x33, 0x65E5], weather = sunny, temperature = [0x32, 0x31, 0x2103],
           precipitation = [0x31, 0x30, 0x25]\<rparr> \<and>
   value_at (Arr [ex_entry0, ex_entry1]) [Idx 1, Fld timeSeries, Idx 2, Fld areas, Idx 0, Fld temps, Idx 1] =
     Str [0x32, 0x31]"
proof -
  have h: "value_at ex_entry0 [Fld reportDatetime] = Str (ascii ''2024-05-03T05:00:00+09:00'') \<and>
    value_at ex_entry0 [Fld timeSeries, Idx 0, Fld areas, Idx 0, Fld weathers, Idx 0] = Str [0x6674, 0x308C] \<and>
    truthy (Str [0x6674, 0x308C]) \<and>
    value_at ex_entry0 [Fld timeSeries, Idx 1, Fld areas, Idx 0, Fld pops, Idx 0] = Str (ascii ''10'') \<and>
    truthy (Str (ascii ''10'')) \<and>
    ToString (Str (ascii ''10'')) = Inr (ascii ''10'')"
    by code_simp
  have g: "value_at ex_entry1 [Fld timeSeries, Idx 2, Fld areas, Idx 0, Fld temps, Idx 1] = Str (ascii ''21'') \<and>
    truthy (Str (ascii ''21'')) \<and> ToString (Str (ascii ''21'')) = Inr (ascii ''21'')"
    by code_simp
  have v: "value_at (Arr [ex_entry0, ex_entry1]) [Idx 1, Fld timeSeries, Idx 2, Fld areas, Idx 0, Fld temps, Idx 1] =
     Str [0x32, 0x31]"
    by code_simp
  have d: "formatDate utc_getDate (Str (hd (js_split 0x54 (ascii ''2024-05-03T05:00:00+09:00'')))) = [0x33, 0x65E5]"
    by code_simp
  have w: "getWeatherText (Str [0x6674, 0x308C]) = sunny"
    by code_simp
  have p: "ascii ''10'' @ percent = [0x31, 0x30, 0x25]"
    by code_simp
  have t: "ascii ''21'' @ degC = [0x32, 0x31, 0x2103]"
    by code_simp
  from extractTodayWeather_sources [of utc_getDate "[ex_entry0]"
      "\<lparr>today_summary.date = [0x33, 0x65E5], weather = sunny, temperature = unknown,
           precipitation = [0x31, 0x30, 0x25]\<rparr>" ex_entry0
      "ascii ''2024-05-03T05:00:00+09:00''" "Str [0x6674, 0x308C]" "Str (ascii ''10'')" "ascii ''10''"
      ex_entry1 "Str (ascii ''21'')" "ascii ''21''" "[]"] h g v
  show ?thesis by (simp only: d w p t simp_thms)
qed

text \<open>
  Claim C2, as amended. For every non-empty payload and each of the four fields: when
  an array element on the field's chain is absent (the report entry, the time-series
  bucket, the area, or the value itself), the chain does not raise and that field is
  the placeholder; when none of the four field computations raises, the summary is
  returned with each field computed from its own chain; and the extraction returns
  \<open>null\<close> exactly when one of the four raises.
\<close>

theorem extractTodayWeather_absent_elements:
  "data \<noteq> [] \<longrightarrow>
   (absent (Arr data) [Idx 0, OptFld reportDatetime, SplitT, Idx 0] n \<longrightarrow>
      (\<exists>x. rawDate data = Inr x \<and> formatDate D x = unknown)) \<and>
   (absent (Arr data) [Idx 0, OptFld timeSeries, Idx 0, OptFld areas, Idx 0, OptFld weathers, Idx 0] n \<longrightarrow>
      weatherText data = Inr (Str unknown) \<and> getWeatherText (Str unknown) = unknown) \<and>
   (absent (Arr data) [Idx 1, OptFld timeSeries, Idx 2, OptFld areas, Idx 0, OptFld temps, Idx 1] n \<longrightarrow>
      temperature_text data = Inr unknown) \<and>
   (absent (Arr data) [Idx 0, OptFld timeSeries, Idx 1, OptFld areas, Idx 0, OptFld pops, Idx 0] n \<longrightarrow>
      precipitation_text data = Inr unknown) \<and>
   (rawDate data = Inr d \<and> weatherText data = Inr w \<and>
    temperature_text data = Inr t \<and> precipitation_text data = Inr p \<longrightarrow>
      extractTodayWeather D (Some data) =
        Some \<lparr>today_summary.date = formatDate D d, weather = getWeatherText w,
              temperature = t, precipitation = p\<rparr>) \<and>
   (extractTodayWeather D (Some data) = None \<longleftrightarrow>
      rawDate data = Inl TypeError \<or> weatherText data = Inl TypeError \<or>
      temperature_text data = Inl TypeError \<or> precipitation_text data = Inl TypeError)"
  using today_absent_date [of data n D] today_absent_weather [of data n]
    today_absent_temperature [of data n] today_absent_precipitation [of data n]
    extractTodayWeather_all_fields [of data d w t p D] extractTodayWeather_None [of data D]
    getWeatherText_unknown
  by blast

theorem extractTodayWeather_absent_elements_witness:
  "absent (Arr [Null]) [Idx 0, OptFld reportDatetime, SplitT, Idx 0] 0 \<and>
   absent (Arr [ex_sparse]) [Idx 0, OptFld timeSeries, Idx 0, OptFld areas, Idx 0, OptFld weathers, Idx 0] 6 \<and>
   absent (Arr [ex_sparse]) [Idx 1, OptFld timeSeries, Idx 2, OptFld areas, Idx 0, OptFld temps, Idx 1] 0 \<and>
   absent (Arr [ex_sparse]) [Idx 0, OptFld timeSeries, Idx 1, OptFld areas, Idx 0, OptFld pops, Idx 0] 2 \<and>
   rawDate [Null] = Inr Undefined \<and>
   extractTodayWeather utc_getDate (Some [ex_sparse]) =
     Some \<lparr>today_summary.date = [0x33, 0x65E5], weather = unknown, temperature = unknown,
           precipitation = unknown\<rparr> \<and>
   extractTodayWeather utc_getDate (Some [ex_sparse]) \<noteq> None"
proof -
  note T = extractTodayWeather_absent_elements
  have a0: "absent (Arr [Null]) [Idx 0, OptFld reportDatetime, SplitT, Idx 0] 0"
    by code_simp
  have a1: "absent (Arr [ex_sparse]) [Idx 0, OptFld timeSeries, Idx 0, OptFld areas, Idx 0, OptFld weathers, Idx 0] 6"
    by code_simp
  have a2: "absent (Arr [ex_sparse]) [Idx 1, OptFld timeSeries, Idx 2, OptFld areas, Idx 0, OptFld temps, Idx 1] 0"
    by code_simp
  have a3: "absent (Arr [ex_sparse]) [Idx 0, OptFld timeSeries, Idx 1, OptFld areas, Idx 0, OptFld pops, Idx 0] 2"
    by code_simp
  have d: "rawDate [ex_sparse] = Inr (Str (ascii ''2024-05-03''))"
    by code_simp
  have f: "formatDate utc_getDate (Str (ascii ''2024-05-03'')) = [0x33, 0x65E5]"
    by code_simp
  from T [where data = "[Null]" and n = 0 and D = utc_getDate and d = Undefined
      and w = Undefined and t = "[]" and p = "[]"] a0
  have "\<exists>x. rawDate [Null] = Inr x \<and> formatDate utc_getDate x = unknown" by blast
  then have d0: "rawDate [Null] = Inr Undefined"
    by (simp add: rawDate_def)
  from T [where data = "[ex_sparse]" and n = 6 and D = utc_getDate and d = Undefined
      and w = Undefined and t = "[]" and p = "[]"] a1
  have w: "weatherText [ex_sparse] = Inr (Str unknown)" and u: "getWeatherText (Str unknown) = unknown"
    by blast+
  from T [where data = "[ex_sparse]" and n = 0 and D = utc_getDate and d = Undefined
      and w = Undefined and t = "[]" and p = "[]"] a2
  have t: "temperature_text [ex_sparse] = Inr unknown" by blast
  from T [where data = "[ex_sparse]" and n = 2 and D = utc_getDate and d = Undefined
      and w = Undefined and t = "[]" and p = "[]"] a3
  have p: "precipitation_text [ex_sparse] = Inr unknown" by blast
  from T [where data = "[ex_sparse]" and n = 0 and D = utc_getDate and d = "Str (ascii ''2024-05-03'')"
      and w = "Str unknown" and t = unknown and p = unknown] d w t p
  have "extractTodayWeather utc_getDate (Some [ex_sparse]) =
     Some \<lparr>today_summary.date = [0x33, 0x65E5], weather = unknown, temperature = unknown,
           precipitation = unknown\<rparr>"
    by (simp add: f u)
  with a0 a1 a2 a3 d0 show ?thesis by simp
qed

text \<open>
  Claim C2 as stated fails for the report timestamp: a first entry without
  \<open>reportDatetime\<close> makes \<open>.split\<close> raise on \<open>undefined\<close>, and the extraction returns
  \<open>null\<close> although every other field is there.
\<close>

theorem extractTodayWeather_missing_timestamp_counterexample:
  "[ex_no_timestamp] \<noteq> [] \<and>
   value_at (Arr [ex_no_timestamp]) [Idx 0, Fld reportDatetime] = Undefined \<and>
   extractTodayWeather utc_getDate (Some [ex_no_timestamp]) = None"
  by code_simp

section \<open>Claims about the extraction of the three-day summary\<close>

text \<open>
  Claim C3, as amended. Whenever \<open>extractThreeDayWeather\<close> returns a sequence, it is
  exactly the day summaries of the positions \<open>0, 1, 2\<close> of the timestamp list of the first
  report entry, or of fewer positions when that list is shorter: date, weather, maximum
  and minimum temperature are zipped by index. At every position where the weather
  list, the second bucket's temperatures or the third bucket's temperatures are too
  short, that field is the placeholder.
\<close>

theorem extractThreeDayWeather_zip:
  "extractThreeDayWeather D (Some data) = Some rs \<longrightarrow>
     (\<exists>ds. js_or (value_at (Arr data) [Idx 0, Fld timeSeries, Idx 0, Fld timeDefines]) (Arr []) = Arr ds \<and>
        rs = map (day_at D data) [0 ..< min 3 (length ds)]) \<and>
     (\<forall>i ws. i < length rs \<and>
        value_at (Arr data) [Idx 0, Fld timeSeries, Idx 0, Fld areas, Idx 0, Fld weathers] = Arr ws \<and>
        length ws \<le> i \<longrightarrow> day_summary.weather (rs ! i) = unknown) \<and>
     (\<forall>i ts. i < length rs \<and>
        value_at (Arr data) [Idx 0, Fld timeSeries, Idx 1, Fld areas, Idx 0, Fld temps] = Arr ts \<and>
        length ts \<le> i \<longrightarrow> maxTemp (rs ! i) = unknown) \<and>
     (\<forall>i ts. i < length rs \<and>
        value_at (Arr data) [Idx 0, Fld timeSeries, Idx 2, Fld areas, Idx 0, Fld temps] = Arr ts \<and>
        length ts \<le> i \<longrightarrow> minTemp (rs ! i) = unknown)"
proof
  assume "extractThreeDayWeather D (Some data) = Some rs"
  then have "threeDay_try D data = Inr (Some rs)" by (rule extractThreeDayWeather_Some)
  from threeDay_try_Some [OF this] obtain ds where
    ds: "js_or (value_at (Arr data) [Idx 0, Fld timeSeries, Idx 0, Fld timeDefines]) (Arr []) = Arr ds"
    and rs: "rs = map (day_at D data) [0 ..< min 3 (length ds)]"
    by blast
  have nth: "rs ! i = day_at D data i" if "i < length rs" for i
    using that rs by simp
  have w: "day_summary.weather (rs ! i) = unknown"
    if "i < length rs"
      "value_at (Arr data) [Idx 0, Fld timeSeries, Idx 0, Fld areas, Idx 0, Fld weathers] = Arr ws"
      "length ws \<le> i" for i ws
  proof -
    have "value_at (Arr data) [Idx 0, Fld timeSeries, Idx 0, Fld areas, Idx 0, Fld weathers, Idx i] = Undefined"
      using day_at_short [OF _ that(2,3)] by simp
    then show ?thesis by (simp add: nth [OF that(1)] day_at_def del: value_at.simps)
  qed
  have hi: "maxTemp (rs ! i) = unknown"
    if "i < length rs"
      "value_at (Arr data) [Idx 0, Fld timeSeries, Idx 1, Fld areas, Idx 0, Fld temps] = Arr ts"
      "length ts \<le> i" for i ts
  proof -
    have "value_at (Arr data) [Idx 0, Fld timeSeries, Idx 1, Fld areas, Idx 0, Fld temps, Idx i] = Undefined"
      using day_at_short [OF _ that(2,3)] by simp
    then show ?thesis by (simp add: nth [OF that(1)] day_at_def del: value_at.simps)
  qed
  have lo: "minTemp (rs ! i) = unknown"
    if "i < length rs"
      "value_at (Arr data) [Idx 0, Fld timeSeries, Idx 2, Fld areas, Idx 0, Fld temps] = Arr ts"
      "length ts \<le> i" for i ts
  proof -
    have "value_at (Arr data) [Idx 0, Fld timeSeries, Idx 2, Fld areas, Idx 0, Fld temps, Idx i] = Undefined"
      using day_at_short [OF _ that(2,3)] by simp
    then show ?thesis by (simp add: nth [OF that(1)] day_at_def del: value_at.simps)
  qed
  from ds rs w hi lo
  show "(\<exists>ds. js_or (value_at (Arr data) [Idx 0, Fld timeSeries, Idx 0, Fld timeDefines]) (Arr []) = Arr ds \<and>
        rs = map (day_at D data) [0 ..< min 3 (length ds)]) \<and>
     (\<forall>i ws. i < length rs \<and>
        value_at (Arr data) [Idx 0, Fld timeSeries, Idx 0, Fld areas, Idx 0, Fld weathers] = Arr ws \<and>
        length ws \<le> i \<longrightarrow> day_summary.weather (rs ! i) = unknown) \<and>
     (\<forall>i ts. i < length rs \<and>
        value_at (Arr data) [Idx 0, Fld timeSeries, Idx 1, Fld areas, Idx 0, Fld temps] = Arr ts \<and>
        length ts \<le> i \<longrightarrow> maxTemp (rs ! i) = unknown) \<and>
     (\<forall>i ts. i < length rs \<and>
        value_at (Arr data) [Idx 0, Fld timeSeries, Idx 2, Fld areas, Idx 0, Fld temps] = Arr ts \<and>
        length ts \<le> i \<longrightarrow> minTemp (rs ! i) = unknown)"
    by blast
qed

theorem extractThreeDayWeather_zip_witness:
  "extractThreeDayWeather utc_getDate (Some [ex_week]) =
     Some [\<lparr>day_summary.date = [0x33, 0x65E5], weather = sunny, maxTemp = unknown, minTemp = unknown\<rparr>,
           \<lparr>day_summary.date = [0x34, 0x65E5], weather = rainy, maxTemp = unknown, minTemp = unknown\<rparr>,
           \<lparr>day_summary.date = [0x35, 0x65E5], weather = unknown, maxTemp = unknown, minTemp = unknown\<rparr>] \<and>
   day_summary.weather
     ([\<lparr>day_summary.date = [0x33, 0x65E5], weather = sunny, maxTemp = unknown, minTemp = unknown\<rparr>,
       \<lparr>day_summary.date = [0x34, 0x65E5], weather = rainy, maxTemp = unknown, minTemp = unknown\<rparr>,
       \<lparr>day_summary.date = [0x35, 0x65E5], weather = unknown, maxTemp = unknown, minTemp = unknown\<rparr>] ! 2)
     = unknown"
proof -
  have h: "extractThreeDayWeather utc_getDate (Some [ex_week]) =
     Some [\<lparr>day_summary.date = [0x33, 0x65E5], weather = sunny, maxTemp = unknown, minTemp = unknown\<rparr>,
           \<lparr>day_summary.date = [0x34, 0x65E5], weather = rainy, maxTemp = unknown, minTemp = unknown\<rparr>,
           \<lparr>day_summary.date = [0x35, 0x65E5], weather = unknown, maxTemp = unknown, minTemp = unknown\<rparr>]"
    by code_simp
  have v: "value_at (Arr [ex_week]) [Idx 0, Fld timeSeries, Idx 0, Fld areas, Idx 0, Fld weathers]
      = Arr [Str [0x6674, 0x308C], Str [0x96E8]]"
    by code_simp
  from extractThreeDayWeather_zip [of utc_getDate "[ex_week]", THEN mp, OF h]
  have "\<forall>i ws. i < 3 \<and>
        value_at (Arr [ex_week]) [Idx 0, Fld timeSeries, Idx 0, Fld areas, Idx 0, Fld weathers] = Arr ws \<and>
        length ws \<le> i \<longrightarrow>
        day_summary.weather
     ([\<lparr>day_summary.date = [0x33, 0x65E5], weather = sunny, maxTemp = unknown, minTemp = unknown\<rparr>,
       \<lparr>day_summary.date = [0x34, 0x65E5], weather = rainy, maxTemp = unknown, minTemp = unknown\<rparr>,
       \<lparr>day_summary.date = [0x35, 0x65E5], weather = unknown, maxTemp = unknown, minTemp = unknown\<rparr>] ! i)
     = unknown"
    by (simp del: value_at.simps)
  from this [rule_format, of 2 "[Str [0x6674, 0x308C], Str [0x96E8]]"] v h
  show ?thesis by (simp del: value_at.simps)
qed

text \<open>
  Claim C3 as stated fails when the first bucket has a timestamp list and no \<open>areas\<close>:
  reading the weather list raises, and the result is \<open>null\<close>, not the first entries.
\<close>

theorem extractThreeDayWeather_no_areas_counterexample:
  "truthy (value_at (Arr [ex_no_areas]) [Idx 0, Fld timeSeries]) \<and>
   value_at (Arr [ex_no_areas]) [Idx 0, Fld timeSeries, Idx 0, Fld timeDefines] = Arr [stamp ''2024-05-03''] \<and>
   extractThreeDayWeather utc_getDate (Some [ex_no_areas]) = None"
  by code_simp

text \<open>
  Claim C9. A raw value that is present but falsy (the empty text, a zero, \<open>false\<close>) is
  rendered as the placeholder: by \<open>extractTodayWeather\<close> for temperature and
  precipitation, and by \<open>extractThreeDayWeather\<close> for weather, maximum and minimum
  temperature at that position.
\<close>

theorem falsy_values_render_unknown:
  "(extractTodayWeather D (Some data) = Some r \<longrightarrow>
      (falsy_present (value_at (Arr data) [Idx 1, Fld timeSeries, Idx 2, Fld areas, Idx 0, Fld temps, Idx 1]) \<longrightarrow>
         temperature r = unknown) \<and>
      (falsy_present (value_at (Arr data) [Idx 0, Fld timeSeries, Idx 1, Fld areas, Idx 0, Fld pops, Idx 0]) \<longrightarrow>
         precipitation r = unknown)) \<and>
   (extractThreeDayWeather D (Some data) = Some rs \<and> i < length rs \<longrightarrow>
      (falsy_present (value_at (Arr data) [Idx 0, Fld timeSeries, Idx 0, Fld areas, Idx 0, Fld weathers, Idx i]) \<longrightarrow>
         day_summary.weather (rs ! i) = unknown) \<and>
      (falsy_present (value_at (Arr data) [Idx 0, Fld timeSeries, Idx 1, Fld areas, Idx 0, Fld temps, Idx i]) \<longrightarrow>
         maxTemp (rs ! i) = unknown) \<and>
      (falsy_present (value_at (Arr data) [Idx 0, Fld timeSeries, Idx 2, Fld areas, Idx 0, Fld temps, Idx i]) \<longrightarrow>
         minTemp (rs ! i) = unknown))"
proof (rule conjI)
  show "extractTodayWeather D (Some data) = Some r \<longrightarrow>
      (falsy_present (value_at (Arr data) [Idx 1, Fld timeSeries, Idx 2, Fld areas, Idx 0, Fld temps, Idx 1]) \<longrightarrow>
         temperature r = unknown) \<and>
      (falsy_present (value_at (Arr data) [Idx 0, Fld timeSeries, Idx 1, Fld areas, Idx 0, Fld pops, Idx 0]) \<longrightarrow>
         precipitation r = unknown)"
  proof
    assume "extractTodayWeather D (Some data) = Some r"
    then have t: "today_try D data = Inr r" by (rule extractTodayWeather_Some)
    from today_try_fields(3) [OF t] today_try_fields(4) [OF t]
    show "(falsy_present (value_at (Arr data) [Idx 1, Fld timeSeries, Idx 2, Fld areas, Idx 0, Fld temps, Idx 1]) \<longrightarrow>
         temperature r = unknown) \<and>
      (falsy_present (value_at (Arr data) [Idx 0, Fld timeSeries, Idx 1, Fld areas, Idx 0, Fld pops, Idx 0]) \<longrightarrow>
         precipitation r = unknown)"
      by (auto simp: Let_def dest: falsy_present_not_truthy simp del: value_at.simps)
  qed
next
  show "extractThreeDayWeather D (Some data) = Some rs \<and> i < length rs \<longrightarrow>
      (falsy_present (value_at (Arr data) [Idx 0, Fld timeSeries, Idx 0, Fld areas, Idx 0, Fld weathers, Idx i]) \<longrightarrow>
         day_summary.weather (rs ! i) = unknown) \<and>
      (falsy_present (value_at (Arr data) [Idx 0, Fld timeSeries, Idx 1, Fld areas, Idx 0, Fld temps, Idx i]) \<longrightarrow>
         maxTemp (rs ! i) = unknown) \<and>
      (falsy_present (value_at (Arr data) [Idx 0, Fld timeSeries, Idx 2, Fld areas, Idx 0, Fld temps, Idx i]) \<longrightarrow>
         minTemp (rs ! i) = unknown)"
  proof
    assume a: "extractThreeDayWeather D (Some data) = Some rs \<and> i < length rs"
    then have "threeDay_try D data = Inr (Some rs)" by (simp add: extractThreeDayWeather_Some)
    from threeDay_try_Some [OF this] a have "rs ! i = day_at D data i" by auto
    then show "(falsy_present (value_at (Arr data) [Idx 0, Fld timeSeries, Idx 0, Fld areas, Idx 0, Fld weathers, Idx i]) \<longrightarrow>
         day_summary.weather (rs ! i) = unknown) \<and>
      (falsy_present (value_at (Arr data) [Idx 0, Fld timeSeries, Idx 1, Fld areas, Idx 0, Fld temps, Idx i]) \<longrightarrow>
         maxTemp (rs ! i) = unknown) \<and>
      (falsy_present (value_at (Arr data) [Idx 0, Fld timeSeries, Idx 2, Fld areas, Idx 0, Fld temps, Idx i]) \<longrightarrow>
         minTemp (rs ! i) = unknown)"
      by (auto simp: day_at_def Let_def dest: falsy_present_not_truthy simp del: value_at.simps)
  qed
qed

theorem falsy_values_render_unknown_witness:
  "extractTodayWeather utc_getDate (Some ex_falsy) =
     Some \<lparr>today_summary.date = [0x33, 0x65E5], weather = unknown, temperature = unknown,
           precipitation = unknown\<rparr> \<and>
   extractThreeDayWeather utc_getDate (Some ex_falsy) =
     Some [\<lparr>day_summary.date = [0x33, 0x65E5], weather = unknown, maxTemp = unknown, minTemp = unknown\<rparr>] \<and>
   value_at (Arr ex_falsy) [Idx 1, Fld timeSeries, Idx 2, Fld areas, Idx 0, Fld temps, Idx 1] = Str [] \<and>
   value_at (Arr ex_falsy) [Idx 0, Fld timeSeries, Idx 1, Fld areas, Idx 0, Fld pops, Idx 0] = Num Zero \<and>
   value_at (Arr ex_falsy) [Idx 0, Fld timeSeries, Idx 0, Fld areas, Idx 0, Fld weathers, Idx 0] = Str [] \<and>
   value_at (Arr ex_falsy) [Idx 0, Fld timeSeries, Idx 1, Fld areas, Idx 0, Fld temps, Idx 0] = Bool False \<and>
   value_at (Arr ex_falsy) [Idx 0, Fld timeSeries, Idx 2, Fld areas, Idx 0, Fld temps, Idx 0] = Num Zero \<and>
   temperature \<lparr>today_summary.date = [0x33, 0x65E5], weather = unknown, temperature = unknown,
           precipitation = unknown\<rparr> = unknown"
proof -
  have t: "extractTodayWeather utc_getDate (Some ex_falsy) =
     Some \<lparr>today_summary.date = [0x33, 0x65E5], weather = unknown, temperature = unknown,
           precipitation = unknown\<rparr>"
    by code_simp
  have d: "extractThreeDayWeather utc_getDate (Some ex_falsy) =
     Some [\<lparr>day_summary.date = [0x33, 0x65E5], weather = unknown, maxTemp = unknown, minTemp = unknown\<rparr>]"
    by code_simp
  have v1: "value_at (Arr ex_falsy) [Idx 1, Fld timeSeries, Idx 2, Fld areas, Idx 0, Fld temps, Idx 1] = Str []"
    by code_simp
  have v2: "value_at (Arr ex_falsy) [Idx 0, Fld timeSeries, Idx 1, Fld areas, Idx 0, Fld pops, Idx 0] = Num Zero"
    by code_simp
  have v3: "value_at (Arr ex_falsy) [Idx 0, Fld timeSeries, Idx 0, Fld areas, Idx 0, Fld weathers, Idx 0] = Str []"
    by code_simp
  have v4: "value_at (Arr ex_falsy) [Idx 0, Fld timeSeries, Idx 1, Fld areas, Idx 0, Fld temps, Idx 0] = Bool False"
    by code_simp
  have v5: "value_at (Arr ex_falsy) [Idx 0, Fld timeSeries, Idx 2, Fld areas, Idx 0, Fld temps, Idx 0] = Num Zero"
    by code_simp
  have f: "falsy_present (Str [])" "falsy_present (Num Zero)" "falsy_present (Bool False)"
    by (simp_all add: falsy_present_def)
  from falsy_values_render_unknown [of utc_getDate ex_falsy
      "\<lparr>today_summary.date = [0x33, 0x65E5], weather = unknown, temperature = unknown,
           precipitation = unknown\<rparr>"
      "[\<lparr>day_summary.date = [0x33, 0x65E5], weather = unknown, maxTemp = unknown, minTemp = unknown\<rparr>]" 0]
    t d v1 v2 v3 v4 v5 f
  show ?thesis by (simp del: value_at.simps)
qed

text \<open>
  Claim C10, as amended. When the first report entry has a truthy \<open>timeSeries\<close> and
  reading the weather and the two temperature lists raises nothing, a missing first
  bucket and a missing, falsy or empty timestamp list give the empty sequence, not
  \<open>null\<close>; a first entry without a truthy \<open>timeSeries\<close> gives \<open>null\<close>; and the controller
  stores the empty sequence and sets no error.
\<close>

theorem extractThreeDayWeather_empty:
  "(truthy (value_at e0 [Fld timeSeries]) \<and>
    access e0 [Fld timeSeries, Idx 0, OptFld areas, Idx 0, OptFld weathers] = Inr w \<and>
    access e0 [Fld timeSeries, Idx 1, OptFld areas, Idx 0, OptFld temps] = Inr hi \<and>
    access e0 [Fld timeSeries, Idx 2, OptFld areas, Idx 0, OptFld temps] = Inr lo \<and>
    (nullish (value_at e0 [Fld timeSeries, Idx 0]) \<or>
     \<not> truthy (value_at e0 [Fld timeSeries, Idx 0, Fld timeDefines]) \<or>
     value_at e0 [Fld timeSeries, Idx 0, Fld timeDefines] = Arr []) \<longrightarrow>
    extractThreeDayWeather D (Some (e0 # rest)) = Some []) \<and>
   (\<not> truthy (value_at (Arr data) [Idx 0, Fld timeSeries]) \<longrightarrow>
    extractThreeDayWeather D (Some data) = None) \<and>
   (extractThreeDayWeather D (Some data) = Some [] \<longrightarrow>
    threeDayWeather (fetchData_resume D st (Some data)) = Some [] \<and>
    error (fetchData_resume D st (Some data)) = error st)"
  using threeDay_empty [of e0 w hi lo D rest] threeDay_no_timeSeries [of data D]
    resume_empty_threeDay [of D data st]
  by blast

theorem extractThreeDayWeather_empty_witness:
  "extractThreeDayWeather utc_getDate (Some [ex_no_buckets]) = Some [] \<and>
   extractThreeDayWeather utc_getDate (Some [Obj []]) = None \<and>
   threeDayWeather (fetchData_resume utc_getDate initial_state (Some [ex_no_buckets])) = Some [] \<and>
   error (fetchData_resume utc_getDate initial_state (Some [ex_no_buckets])) = None"
proof -
  have h: "truthy (value_at ex_no_buckets [Fld timeSeries]) \<and>
    access ex_no_buckets [Fld timeSeries, Idx 0, OptFld areas, Idx 0, OptFld weathers] = Inr Undefined \<and>
    access ex_no_buckets [Fld timeSeries, Idx 1, OptFld areas, Idx 0, OptFld temps] = Inr Undefined \<and>
    access ex_no_buckets [Fld timeSeries, Idx 2, OptFld areas, Idx 0, OptFld temps] = Inr Undefined \<and>
    (nullish (value_at ex_no_buckets [Fld timeSeries, Idx 0]) \<or>
     \<not> truthy (value_at ex_no_buckets [Fld timeSeries, Idx 0, Fld timeDefines]) \<or>
     value_at ex_no_buckets [Fld timeSeries, Idx 0, Fld timeDefines] = Arr [])"
    by code_simp
  have n: "\<not> truthy (value_at (Arr [Obj []]) [Idx 0, Fld timeSeries])"
    by code_simp
  have i: "error initial_state = None"
    by (simp add: initial_state_def)
  note T = extractThreeDayWeather_empty
  from T [of ex_no_buckets Undefined Undefined Undefined utc_getDate "[]" "[Obj []]" initial_state] h n
  have a: "extractThreeDayWeather utc_getDate (Some [ex_no_buckets]) = Some []"
    and b: "extractThreeDayWeather utc_getDate (Some [Obj []]) = None"
    by blast+
  from T [of ex_no_buckets Undefined Undefined Undefined utc_getDate "[]" "[ex_no_buckets]" initial_state] a
  have "threeDayWeather (fetchData_resume utc_getDate initial_state (Some [ex_no_buckets])) = Some [] \<and>
    error (fetchData_resume utc_getDate initial_state (Some [ex_no_buckets])) = error initial_state"
    by blast
  with a b i show ?thesis by simp
qed

text \<open>
  Claim C10 as stated fails when the first bucket is an object without \<open>areas\<close>: its
  timestamp list is missing, yet reading the weather list raises and the result is
  \<open>null\<close>.
\<close>

theorem extractThreeDayWeather_empty_bucket_counterexample:
  "truthy (value_at (Arr [ex_empty_bucket]) [Idx 0, Fld timeSeries]) \<and>
   value_at (Arr [ex_empty_bucket]) [Idx 0, Fld timeSeries, Idx 0] = Obj [] \<and>
   value_at (Arr [ex_empty_bucket]) [Idx 0, Fld timeSeries, Idx 0, Fld timeDefines] = Undefined \<and>
   extractThreeDayWeather utc_getDate (Some [ex_empty_bucket]) = None"
  by code_simp

section \<open>Claims about the field normalizers\<close>

text \<open>
  Claim C5, as amended. \<open>getWeatherText\<close> tests for the sun glyph, then the rain glyph,
  then the cloud glyph, and the first one found decides; a non-empty text with none of
  them is returned unchanged; the empty text and every input that is not a text give
  the placeholder.
\<close>

theorem getWeatherText_priority:
  "(0x6674 \<in> set s \<longrightarrow> getWeatherText (Str s) = sunny) \<and>
   (0x6674 \<notin> set s \<and> 0x96E8 \<in> set s \<longrightarrow> getWeatherText (Str s) = rainy) \<and>
   (0x6674 \<notin> set s \<and> 0x96E8 \<notin> set s \<and> 0x66C7 \<in> set s \<longrightarrow> getWeatherText (Str s) = cloudy) \<and>
   (0x6674 \<notin> set s \<and> 0x96E8 \<notin> set s \<and> 0x66C7 \<notin> set s \<and> s \<noteq> [] \<longrightarrow> getWeatherText (Str s) = s) \<and>
   getWeatherText (Str []) = unknown \<and>
   ((\<forall>t. v \<noteq> Str t) \<longrightarrow> getWeatherText v = unknown)"
  by (cases v) (auto simp: getWeatherText_def js_includes_glyph)

theorem getWeatherText_priority_witness:
  "getWeatherText (Str [0x96E8, 0x6674]) = sunny \<and>
   getWeatherText (Str [0x66C7, 0x96E8]) = rainy \<and>
   getWeatherText (Str [0x66C7]) = cloudy \<and>
   getWeatherText (Str [0x96EA]) = [0x96EA] \<and>
   getWeatherText Null = unknown"
  using getWeatherText_priority [of "[0x96E8, 0x6674]" Null]
    getWeatherText_priority [of "[0x66C7, 0x96E8]" Null]
    getWeatherText_priority [of "[0x66C7]" Null]
    getWeatherText_priority [of "[0x96EA]" Null]
  by simp

text \<open>
  Claim C5 as stated fails at the empty text: it holds none of the three glyphs, and
  the result is the placeholder, not the text itself.
\<close>

theorem getWeatherText_empty_text_counterexample:
  "0x6674 \<notin> set ([] :: jsstring) \<and> 0x96E8 \<notin> set ([] :: jsstring) \<and> 0x66C7 \<notin> set ([] :: jsstring) \<and>
   getWeatherText (Str []) \<noteq> []"
  by (simp add: getWeatherText_def unknown_def)

lemma ev_digits3: "digits 3 = [0x33]" by (subst digits.simps) simp

text \<open>
  Claim C6, as amended. For every input that is not an object (missing, a text, a
  number or a boolean), \<open>formatDate\<close> returns the placeholder exactly when the input is
  falsy (missing or the empty text among them). For every other such input it returns
  what \<open>getDate()\<close> gives, followed by the day suffix: the day of the month for a valid
  date, and the text \<open>NaN\<close> for a date the runtime cannot parse.
\<close>

theorem formatDate_cases:
  "primitive v \<longrightarrow>
   (\<not> truthy v \<longrightarrow> formatDate D v = unknown) \<and>
   (truthy v \<and> D v = Some d \<longrightarrow> formatDate D v = digits d @ day_suffix) \<and>
   (truthy v \<and> D v = None \<longrightarrow> formatDate D v = ascii ''NaN'' @ day_suffix) \<and>
   (formatDate D v = unknown \<longleftrightarrow> \<not> truthy v)"
  by (auto simp: formatDate_def day_label_not_unknown split: option.splits)

theorem formatDate_cases_witness:
  "formatDate utc_getDate Null = unknown \<and>
   formatDate utc_getDate (Str []) = unknown \<and>
   formatDate utc_getDate (Str (ascii ''2024-05-03T00:00:00'')) = [0x33, 0x65E5] \<and>
   formatDate utc_getDate (Str (ascii ''x'')) = [0x4E, 0x61, 0x4E, 0x65E5]"
  using formatDate_cases [of Null utc_getDate 0]
    formatDate_cases [of "Str []" utc_getDate 0]
    formatDate_cases [of "Str (ascii ''2024-05-03T00:00:00'')" utc_getDate 3]
    formatDate_cases [of "Str (ascii ''x'')" utc_getDate 0]
  by (simp add: utc_getDate_def ascii_def time_ok_def number_def is_digit_def days_in_month_def day_suffix_def ev_digits3)

text \<open>
  Claim C6 as stated fails on text that is no date: the result is \<open>NaN\<close> followed by
  the day suffix, not the placeholder.
\<close>

theorem formatDate_unparseable_counterexample:
  "utc_getDate (Str (ascii ''x'')) = None \<and> formatDate utc_getDate (Str (ascii ''x'')) \<noteq> unknown"
  by (simp add: formatDate_def utc_getDate_def ascii_def day_suffix_def unknown_def)

section \<open>Claims about the fetcher and the controller\<close>

text \<open>
  Claim C7. For every area code and every behaviour of the transport, a rejected
  request, a response that is not ok and a body that fails to parse all give \<open>null\<close>;
  a response that is ok and parses gives the parsed payload. Whatever is thrown inside
  the \<open>try\<close> block becomes \<open>null\<close>: the result type has no room for an exception.
\<close>

theorem fetchWeatherData_outcomes:
  "(fetch (generateApiEndpoint areaCode) = Rejected \<longrightarrow> fetchWeatherData fetch areaCode = None) \<and>
   (fetch (generateApiEndpoint areaCode) = Resolved r \<and> \<not> ok r \<longrightarrow> fetchWeatherData fetch areaCode = None) \<and>
   (fetch (generateApiEndpoint areaCode) = Resolved r \<and> ok r \<and> json r = Rejected \<longrightarrow>
      fetchWeatherData fetch areaCode = None) \<and>
   (fetch (generateApiEndpoint areaCode) = Resolved r \<and> ok r \<and> json r = Resolved body \<longrightarrow>
      fetchWeatherData fetch areaCode = body) \<and>
   (\<forall>e. fetch_try fetch areaCode = Inl e \<longrightarrow> fetchWeatherData fetch areaCode = None)"
  by (auto simp: fetchWeatherData_def fetch_try_def)

theorem fetchWeatherData_outcomes_witness:
  "fetchWeatherData (\<lambda>url. Rejected) (AREA_CODES Tokyo) = None \<and>
   fetchWeatherData (\<lambda>url. Resolved \<lparr>ok = False, json = Resolved (Some [])\<rparr>) (AREA_CODES Tokyo) = None \<and>
   fetchWeatherData (\<lambda>url. Resolved \<lparr>ok = True, json = Rejected\<rparr>) (AREA_CODES Tokyo) = None \<and>
   fetchWeatherData (\<lambda>url. Resolved \<lparr>ok = True, json = Resolved (Some [Null])\<rparr>) (AREA_CODES Tokyo) = Some [Null]"
  using fetchWeatherData_outcomes [of "\<lambda>url. Rejected" "AREA_CODES Tokyo" "\<lparr>ok = False, json = Rejected\<rparr>" None]
    fetchWeatherData_outcomes [of "\<lambda>url. Resolved \<lparr>ok = False, json = Resolved (Some [])\<rparr>" "AREA_CODES Tokyo"
       "\<lparr>ok = False, json = Resolved (Some [])\<rparr>" None]
    fetchWeatherData_outcomes [of "\<lambda>url. Resolved \<lparr>ok = True, json = Rejected\<rparr>" "AREA_CODES Tokyo"
       "\<lparr>ok = True, json = Rejected\<rparr>" None]
    fetchWeatherData_outcomes [of "\<lambda>url. Resolved \<lparr>ok = True, json = Resolved (Some [Null])\<rparr>" "AREA_CODES Tokyo"
       "\<lparr>ok = True, json = Resolved (Some [Null])\<rparr>" "Some [Null]"]
  by simp

text \<open>
  Claim C4, as amended. After a fetch cycle that runs from start to completion with no
  other cycle in between, the loading flag is off; the error is the retrieval message
  when no payload came, the parse message when both extractions failed, and empty when
  at least one extraction succeeded; each summary is replaced by its extraction when
  that succeeded and keeps its earlier value otherwise. From a state with no summary
  yet, exactly one holds: the error is set, or at least one summary is.
\<close>

theorem fetchData_outcome:
  "(let data = fetchWeatherData fetch (AREA_CODES (selectedArea st));
        today = extractTodayWeather D data;
        three = extractThreeDayWeather D data;
        st' = fetchData D fetch st
    in isLoading st' = False \<and>
       (data = None \<longrightarrow> error st' = Some fetch_failed) \<and>
       (data \<noteq> None \<and> today = None \<and> three = None \<longrightarrow> error st' = Some parse_failed) \<and>
       (data \<noteq> None \<and> (today \<noteq> None \<or> three \<noteq> None) \<longrightarrow> error st' = None) \<and>
       (today \<noteq> None \<longrightarrow> weatherData st' = today) \<and>
       (today = None \<longrightarrow> weatherData st' = weatherData st) \<and>
       (three \<noteq> None \<longrightarrow> threeDayWeather st' = three) \<and>
       (three = None \<longrightarrow> threeDayWeather st' = threeDayWeather st) \<and>
       (weatherData st = None \<and> threeDayWeather st = None \<longrightarrow>
          (error st' \<noteq> None) \<noteq> (weatherData st' \<noteq> None \<or> threeDayWeather st' \<noteq> None)))"
proof -
  have n: "extractTodayWeather D None = None" "extractThreeDayWeather D None = None"
    by (simp_all add: extractTodayWeather_def extractThreeDayWeather_def)
  show ?thesis
    unfolding fetchData_def fetchData_resume_def fetchData_begin_def Let_def
    by (cases "fetchWeatherData fetch (AREA_CODES (selectedArea st))") (auto simp: n)
qed

theorem fetchData_outcome_witness:
  "isLoading ex_after_success = False \<and> error ex_after_success = None \<and>
   weatherData ex_after_success = extractTodayWeather utc_getDate (Some [ex_full]) \<and>
   threeDayWeather ex_after_success = extractThreeDayWeather utc_getDate (Some [ex_full]) \<and>
   weatherData ex_after_success \<noteq> None \<and> threeDayWeather ex_after_success \<noteq> None \<and>
   error (fetchData utc_getDate offline initial_state) = Some fetch_failed \<and>
   weatherData (fetchData utc_getDate offline initial_state) = None \<and>
   error (fetchData utc_getDate (serving [Obj []]) initial_state) = Some parse_failed"
proof -
  have d: "fetchWeatherData (serving [ex_full]) (AREA_CODES (selectedArea initial_state)) = Some [ex_full]"
    "fetchWeatherData offline (AREA_CODES (selectedArea initial_state)) = None"
    "fetchWeatherData (serving [Obj []]) (AREA_CODES (selectedArea initial_state)) = Some [Obj []]"
    by (simp_all add: fetchWeatherData_def fetch_try_def serving_def offline_def)
  have t: "extractTodayWeather utc_getDate (Some [ex_full]) \<noteq> None"
    "extractThreeDayWeather utc_getDate (Some [ex_full]) \<noteq> None"
    "extractTodayWeather utc_getDate (Some [Obj []]) = None"
    "extractThreeDayWeather utc_getDate (Some [Obj []]) = None"
    by code_simp+
  have i: "weatherData initial_state = None" "threeDayWeather initial_state = None"
    by (simp_all add: initial_state_def)
  from fetchData_outcome [of "serving [ex_full]" initial_state utc_getDate]
    fetchData_outcome [of offline initial_state utc_getDate]
    fetchData_outcome [of "serving [Obj []]" initial_state utc_getDate]
    d t i
  show ?thesis by (simp add: Let_def ex_after_success_def extractTodayWeather_def)
qed

text \<open>
  Claim C4 as stated fails twice. After a success followed by a failed fetch for
  another region, both summaries and the error are populated; after a first fetch
  whose payload yields today's summary but no three-day summary, neither the pair of
  summaries nor the error is.
\<close>

theorem fetchData_exactly_one_counterexample:
  "effect_runs ex_after_success (setSelectedArea Osaka ex_after_success) \<and>
   weatherData ex_after_failure \<noteq> None \<and> threeDayWeather ex_after_failure \<noteq> None \<and>
   error ex_after_failure \<noteq> None \<and>
   weatherData ex_partial \<noteq> None \<and> threeDayWeather ex_partial = None \<and> error ex_partial = None"
proof -
  have full: "extractTodayWeather utc_getDate (Some [ex_full]) \<noteq> None"
    "extractThreeDayWeather utc_getDate (Some [ex_full]) \<noteq> None"
    by code_simp+
  have part: "extractTodayWeather utc_getDate (Some [ex_third_bucket_empty]) \<noteq> None"
    "extractThreeDayWeather utc_getDate (Some [ex_third_bucket_empty]) = None"
    by code_simp+
  have f: "fetchWeatherData (serving body) code = Some body" "fetchWeatherData offline code = None"
    for body code
    by (simp_all add: fetchWeatherData_def fetch_try_def serving_def offline_def)
  have s: "weatherData ex_after_success \<noteq> None" "threeDayWeather ex_after_success \<noteq> None"
    "selectedArea ex_after_success = Tokyo"
    using full
    by (simp_all add: ex_after_success_def fetchData_def fetchData_resume_def fetchData_begin_def
        initial_state_def f Let_def)
  have a: "weatherData ex_after_failure \<noteq> None" "threeDayWeather ex_after_failure \<noteq> None"
    "error ex_after_failure \<noteq> None"
    using s
    by (simp_all add: ex_after_failure_def fetchData_def fetchData_resume_def fetchData_begin_def
        setSelectedArea_def f Let_def)
  have b: "weatherData ex_partial \<noteq> None" "threeDayWeather ex_partial = None" "error ex_partial = None"
    using part
    by (simp_all add: ex_partial_def fetchData_def fetchData_resume_def fetchData_begin_def
        initial_state_def f Let_def)
  have e: "effect_runs ex_after_success (setSelectedArea Osaka ex_after_success)"
    using s by (simp add: effect_runs_def setSelectedArea_def)
  from a b e show ?thesis by simp
qed

text \<open>
  Claim C8. In every view state, setting the view mode changes the view mode only:
  selected region, both summaries, error and loading flag keep their values, and the
  effect that fetches does not run, since its dependency \<open>selectedArea\<close> is unchanged.
\<close>

theorem setViewMode_frame:
  "selectedArea (setViewMode m st) = selectedArea st \<and>
   weatherData (setViewMode m st) = weatherData st \<and>
   threeDayWeather (setViewMode m st) = threeDayWeather st \<and>
   error (setViewMode m st) = error st \<and>
   isLoading (setViewMode m st) = isLoading st \<and>
   viewMode (setViewMode m st) = m \<and>
   \<not> effect_runs st (setViewMode m st)"
  by (simp add: setViewMode_def effect_runs_def)

end
